theory Spec2Isabelle
  imports Main "HOL-Library.Sublist"
begin

section \<open>Python values shared by the scraper and the dashboard\<close>

text \<open>
  A trade is the Python dict that \<^verbatim>\<open>parse_form4_url\<close> builds (Scraper.py, lines 275-286)
  and that the dashboard stores as JSON: string keys, and values that are strings, floats,
  booleans or \<^verbatim>\<open>None\<close>. The dict is an association list in insertion order.

  Two parts of the Python runtime are kept abstract. The type \<open>'f\<close> stands for
  \<^verbatim>\<open>float\<close>, and the operations the code applies to floats are fields of a \<open>py_ops\<close>
  record that every function using them receives; so is \<^verbatim>\<open>str.upper()\<close>, whose
  result on letters outside ASCII can leave the 8-bit characters. Nothing is assumed
  about these operations, so a theorem holds for every behaviour \<^verbatim>\<open>float()\<close>, \<^verbatim>\<open>*\<close>,
  \<^verbatim>\<open>>=\<close>, \<^verbatim>\<open>==\<close>, \<^verbatim>\<open>str()\<close> and \<^verbatim>\<open>upper()\<close> may have.
\<close>

datatype 'f pyval = PNone | PBool bool | PNum 'f | PStr string

type_synonym 'f trade = "(string \<times> 'f pyval) list"

record 'f py_ops =
  float_of_str :: "string \<Rightarrow> 'f option"   \<comment> \<open>\<^verbatim>\<open>float(s)\<close>; \<open>None\<close> is \<^verbatim>\<open>ValueError\<close>\<close>
  float_mul :: "'f \<Rightarrow> 'f \<Rightarrow> 'f"              \<comment> \<open>\<^verbatim>\<open>x * y\<close>\<close>
  float_ge :: "'f \<Rightarrow> 'f \<Rightarrow> bool"             \<comment> \<open>\<^verbatim>\<open>x >= y\<close>\<close>
  float_is_zero :: "'f \<Rightarrow> bool"             \<comment> \<open>\<^verbatim>\<open>x == 0.0\<close>\<close>
  float_zero :: "'f"                         \<comment> \<open>the literal \<^verbatim>\<open>0.0\<close>\<close>
  float_str :: "'f \<Rightarrow> string"               \<comment> \<open>\<^verbatim>\<open>str(x)\<close>\<close>
  MIN_TRADE_VALUE :: "'f"                    \<comment> \<open>the literal \<^verbatim>\<open>1000000.00\<close>\<close>
  str_upper :: "string \<Rightarrow> string"           \<comment> \<open>\<^verbatim>\<open>s.upper()\<close>\<close>

text \<open>\<^verbatim>\<open>d.get(k)\<close> and \<^verbatim>\<open>d.get(k, default)\<close>.\<close>

definition dict_get :: "'f trade \<Rightarrow> string \<Rightarrow> 'f pyval" where
  "dict_get d k = (case map_of d k of None \<Rightarrow> PNone | Some v \<Rightarrow> v)"

definition dict_get_default :: "'f trade \<Rightarrow> string \<Rightarrow> 'f pyval \<Rightarrow> 'f pyval" where
  "dict_get_default d k dflt = (case map_of d k of None \<Rightarrow> dflt | Some v \<Rightarrow> v)"

text \<open>\<^verbatim>\<open>str(v)\<close> on the values a trade holds.\<close>

fun py_str :: "'f py_ops \<Rightarrow> 'f pyval \<Rightarrow> string" where
  "py_str fo PNone = ''None''"
| "py_str fo (PBool b) = (if b then ''True'' else ''False'')"
| "py_str fo (PNum x) = float_str fo x"
| "py_str fo (PStr s) = s"

section \<open>dashboard.py: the deduplicating merge\<close>

text \<open>
  The composite key of \<^verbatim>\<open>deduplicate_trades\<close>. The date, ticker, filer and code are
  taken as they are (\<^verbatim>\<open>None\<close> when the trade lacks them) and the shares and price as
  strings. Keys are compared as values of HOL, which is Python's comparison of tuples on
  the strings and \<^verbatim>\<open>None\<close> that the scraper stores in the first four components.
\<close>

type_synonym 'f trade_key = "'f pyval \<times> 'f pyval \<times> 'f pyval \<times> 'f pyval \<times> string \<times> string"

definition unique_key :: "'f py_ops \<Rightarrow> 'f trade \<Rightarrow> 'f trade_key" where
  "unique_key fo trade =
     (dict_get trade ''date'',
      dict_get trade ''ticker'',
      dict_get trade ''filer'',
      dict_get trade ''code'',
      py_str fo (dict_get_default trade ''shares'' (PNum (float_zero fo))),
      py_str fo (dict_get_default trade ''price'' (PNum (float_zero fo))))"

text \<open>
  The loop of \<^verbatim>\<open>deduplicate_trades\<close>: \<open>unique_trades\<close> is the Python dict, whose
  entries keep their insertion order; a trade is stored only under a key not yet present.
\<close>

fun dedup_loop ::
  "'f py_ops \<Rightarrow> ('f trade_key \<times> 'f trade) list \<Rightarrow> 'f trade list \<Rightarrow> ('f trade_key \<times> 'f trade) list"
where
  "dedup_loop fo unique_trades [] = unique_trades"
| "dedup_loop fo unique_trades (trade # trades) =
     (if map_of unique_trades (unique_key fo trade) = None
      then dedup_loop fo (unique_trades @ [(unique_key fo trade, trade)]) trades
      else dedup_loop fo unique_trades trades)"

definition deduplicate_trades :: "'f py_ops \<Rightarrow> 'f trade list \<Rightarrow> 'f trade list" where
  "deduplicate_trades fo trades = map snd (dedup_loop fo [] trades)"

text \<open>
  The merge that \<^verbatim>\<open>upload_trades\<close> performs on the stored list and the uploaded batch
  (dashboard.py, lines 134-138).
\<close>

definition merge :: "'f py_ops \<Rightarrow> 'f trade list \<Rightarrow> 'f trade list \<Rightarrow> 'f trade list" where
  "merge fo existing_trades new_trades = deduplicate_trades fo (existing_trades @ new_trades)"

section \<open>dashboard.py: the upload endpoint\<close>

text \<open>
  What \<^verbatim>\<open>upload_trades\<close> reads of a request: whether the content type announces JSON
  (\<^verbatim>\<open>request.is_json\<close>), what \<^verbatim>\<open>request.get_json()\<close> yields (\<open>None\<close> when the body does
  not parse, in which case the framework aborts the request with status 400), and the
  \<^verbatim>\<open>X-API-KEY\<close> header. A parsed body is a JSON object, of which only the \<^verbatim>\<open>trades\<close> entry
  is read, or some other JSON value, on which \<^verbatim>\<open>payload.get\<close> raises and the framework
  answers 500.
\<close>

datatype 'f trades_field = TradesMissing | TradesNotAList | TradesList "'f trade list"

datatype 'f json_body = JsonObject "'f trades_field" | JsonOther

record 'f request =
  is_json :: bool
  get_json :: "'f json_body option"
  x_api_key :: "string option"

datatype message =
    MissingJSON
  | BadRequestBody
  | Unauthorized
  | TradesMustBeList
  | Processed nat nat
  | InternalServerError

text \<open>
  The store is the decoded content of \<^verbatim>\<open>DATA_FILE\<close>: \<^verbatim>\<open>load_data\<close> returns it (the empty
  list when the file is missing or unreadable) and \<^verbatim>\<open>save_data\<close> overwrites it. The
  endpoint returns the response (status and message) and the store it leaves.
\<close>

definition upload_trades ::
  "'f py_ops \<Rightarrow> string \<Rightarrow> 'f trade list \<Rightarrow> 'f request \<Rightarrow> (nat \<times> message) \<times> 'f trade list"
where
  "upload_trades fo DASHBOARD_API_KEY store req =
     (if \<not> is_json req then ((400, MissingJSON), store)
      else (case get_json req of
        None \<Rightarrow> ((400, BadRequestBody), store)
      | Some payload \<Rightarrow>
          (if x_api_key req \<noteq> Some DASHBOARD_API_KEY then ((403, Unauthorized), store)
           else (case payload of
             JsonOther \<Rightarrow> ((500, InternalServerError), store)
           | JsonObject TradesNotAList \<Rightarrow> ((400, TradesMustBeList), store)
           | JsonObject field \<Rightarrow>
               (let new_trades = (case field of TradesList ts \<Rightarrow> ts | _ \<Rightarrow> []);
                    existing_trades = store;
                    combined_trades = existing_trades @ new_trades;
                    initial_count = length combined_trades;
                    final_trades = deduplicate_trades fo combined_trades;
                    deduped_count = length final_trades;
                    duplicates_removed = initial_count - deduped_count
                in ((200, Processed deduped_count duplicates_removed), final_trades))))))"

section \<open>Scraper.py: strings\<close>

text \<open>
  Text is a string of 8-bit characters. \<^verbatim>\<open>str.strip()\<close> removes the characters for which
  \<^verbatim>\<open>str.isspace\<close> holds. \<open>lower_char\<close> is the case folding under which \<^verbatim>\<open>re.IGNORECASE\<close>
  compares a character of the text with a letter of the two markers searched for, which
  are ASCII.
\<close>

definition is_space :: "char \<Rightarrow> bool" where
  "is_space c = (c \<in> set [CHR 0x09, CHR 0x0A, CHR 0x0B, CHR 0x0C, CHR 0x0D,
                           CHR 0x1C, CHR 0x1D, CHR 0x1E, CHR 0x1F, CHR 0x20,
                           CHR 0x85, CHR 0xA0])"

definition strip :: "string \<Rightarrow> string" where
  "strip s = rev (dropWhile is_space (rev (dropWhile is_space s)))"

definition lower_char :: "char \<Rightarrow> char" where
  "lower_char c =
     (case map_of (zip ''ABCDEFGHIJKLMNOPQRSTUVWXYZ'' ''abcdefghijklmnopqrstuvwxyz'') c of
        None \<Rightarrow> c | Some l \<Rightarrow> l)"

definition endswith :: "string \<Rightarrow> string \<Rightarrow> bool" where
  "endswith s suf = suffix suf s"

text \<open>\<^verbatim>\<open>s.replace(',', '')\<close>.\<close>

definition remove_commas :: "string \<Rightarrow> string" where
  "remove_commas s = filter (\<lambda>c. c \<noteq> CHR '','') s"

text \<open>\<^verbatim>\<open>line.split('|')\<close>: the fields between the separators, never an empty list.\<close>

fun split_on :: "char \<Rightarrow> string \<Rightarrow> string list" where
  "split_on sep [] = [[]]"
| "split_on sep (c # cs) =
     (if c = sep then [] # split_on sep cs
      else (case split_on sep cs of
              [] \<Rightarrow> [[c]]
            | part # parts \<Rightarrow> (c # part) # parts))"

text \<open>\<^verbatim>\<open>text.splitlines()\<close>; \<open>cur\<close> holds the current line reversed.\<close>

definition is_linebreak :: "char \<Rightarrow> bool" where
  "is_linebreak c = (c \<in> set [CHR 0x0A, CHR 0x0B, CHR 0x0C, CHR 0x0D,
                               CHR 0x1C, CHR 0x1D, CHR 0x1E, CHR 0x85])"

fun splitlines_from :: "string \<Rightarrow> string \<Rightarrow> string list" where
  "splitlines_from cur [] = (if cur = [] then [] else [rev cur])"
| "splitlines_from cur (c # cs) =
     (if c = CHR 0x0D then
        (case cs of
           [] \<Rightarrow> [rev cur]
         | d # ds \<Rightarrow> if d = CHR 0x0A then rev cur # splitlines_from [] ds
                     else rev cur # splitlines_from [] (d # ds))
      else if is_linebreak c then rev cur # splitlines_from [] cs
      else splitlines_from (c # cur) cs)"

definition splitlines :: "string \<Rightarrow> string list" where
  "splitlines s = splitlines_from [] s"

section \<open>Scraper.py: the daily index\<close>

text \<open>The body of the loop over the index lines (lines 88-95): the URLs one line adds.\<close>

definition line_urls :: "string \<Rightarrow> string list" where
  "line_urls line =
     (let parts = split_on CHR ''|'' line in
      if length parts \<ge> 3 \<and> parts ! 2 = ''4'' then
        (if length parts = 5 then [''https://www.sec.gov/Archives/'' @ parts ! 4] else [])
      else [])"

fun form4_urls_loop :: "string list \<Rightarrow> string list \<Rightarrow> string list" where
  "form4_urls_loop form4_urls [] = form4_urls"
| "form4_urls_loop form4_urls (line # lines) =
     form4_urls_loop (form4_urls @ line_urls line) lines"

text \<open>
  The outcome of the index download: the response text, an HTTP error status raised by
  \<^verbatim>\<open>raise_for_status\<close>, or another \<^verbatim>\<open>RequestException\<close>. Both failures return the empty list.
\<close>

datatype index_response = IndexText string | IndexHttpError nat | IndexNetworkError

fun get_form4_urls_from_index :: "index_response \<Rightarrow> string list" where
  "get_form4_urls_from_index (IndexHttpError status) = []"
| "get_form4_urls_from_index IndexNetworkError = []"
| "get_form4_urls_from_index (IndexText t) = form4_urls_loop [] (splitlines t)"

section \<open>Scraper.py: element trees\<close>

text \<open>
  An element of \<^verbatim>\<open>xml.etree.ElementTree\<close>: its tag (with the namespace in braces when it
  has one), its text (\<^verbatim>\<open>None\<close> when the element has none) and its children. Attributes
  and tails are never read by the scraper.
\<close>

datatype element = Element (tag: string) (text_of: "string option") (children: "element list")

text \<open>\<^verbatim>\<open>element.iter()\<close>: the element and its descendants in document order.\<close>

fun iter :: "element \<Rightarrow> element list" where
  "iter (Element t x cs) = Element t x cs # concat (map iter cs)"

text \<open>
  \<^verbatim>\<open>element.findall('.//name')\<close> and \<^verbatim>\<open>element.find('.//name')\<close>: the descendants (the
  element itself excluded) whose tag is exactly \<open>name\<close>, in document order, and the first
  of them.
\<close>

definition descendants :: "element \<Rightarrow> element list" where
  "descendants e = concat (map iter (children e))"

definition findall :: "element \<Rightarrow> string \<Rightarrow> element list" where
  "findall e name = filter (\<lambda>d. tag d = name) (descendants e)"

definition find_path :: "element \<Rightarrow> string \<Rightarrow> element option" where
  "find_path e name = find (\<lambda>d. tag d = name) (descendants e)"

text \<open>The truth value of \<^verbatim>\<open>element.text\<close>: false for \<^verbatim>\<open>None\<close> and for the empty string.\<close>

definition has_text :: "element \<Rightarrow> bool" where
  "has_text e = (case text_of e of None \<Rightarrow> False | Some s \<Rightarrow> s \<noteq> [])"

definition text_str :: "element \<Rightarrow> string" where
  "text_str e = (case text_of e of None \<Rightarrow> [] | Some s \<Rightarrow> s)"

datatype py_exception = RequestException | ValueError | ParseError | AttributeError | TypeError

section \<open>Scraper.py: \<^verbatim>\<open>extract_value_via_iteration\<close>\<close>

text \<open>
  The result is a Python float or \<^verbatim>\<open>None\<close> (the \<open>None\<close> of the option type). The
  \<^verbatim>\<open>ValueError\<close> of \<^verbatim>\<open>float()\<close> is caught inside and falls through to \<^verbatim>\<open>return 0.0\<close>.
\<close>

definition extract_value_via_iteration ::
  "'f py_ops \<Rightarrow> element \<Rightarrow> string \<Rightarrow> 'f option"
where
  "extract_value_via_iteration fo parent_element target_tag_name =
     (case find (\<lambda>element. endswith (tag element) target_tag_name) (iter parent_element) of
        None \<Rightarrow> None
      | Some container_element \<Rightarrow>
          (let val =
                 (case find (\<lambda>element. endswith (tag element) ''value'' \<and> has_text element)
                         (iter container_element) of
                    None \<Rightarrow> []
                  | Some element \<Rightarrow> strip (text_str element))
           in if val \<noteq> [] then
                (case float_of_str fo (strip (remove_commas val)) of
                   Some x \<Rightarrow> Some x
                 | None \<Rightarrow> Some (float_zero fo))
              else Some (float_zero fo)))"

section \<open>Scraper.py: \<^verbatim>\<open>clean_and_extract_xml\<close>\<close>

text \<open>
  \<^verbatim>\<open>re.search(pat, s, re.IGNORECASE)\<close> for a pattern of literal characters: the index of
  the first position at which the pattern matches, letters compared without case.
\<close>

definition ci_prefix :: "string \<Rightarrow> string \<Rightarrow> bool" where
  "ci_prefix pat s = (map lower_char (take (length pat) s) = map lower_char pat)"

fun re_search :: "string \<Rightarrow> string \<Rightarrow> nat option" where
  "re_search pat [] = (if pat = [] then Some 0 else None)"
| "re_search pat (c # cs) =
     (if ci_prefix pat (c # cs) then Some 0 else map_option Suc (re_search pat cs))"

text \<open>
  \<^verbatim>\<open>re.sub(r'<\?xml[^>]*\?>', '', s, flags=re.IGNORECASE)\<close>. A match at the head of \<open>s\<close>
  starts with \<^verbatim>\<open><?xml\<close> and, since \<^verbatim>\<open>[^>]*\<close> cannot pass a \<^verbatim>\<open>>\<close>, ends at the first \<^verbatim>\<open>>\<close>
  that follows, which must come right after a \<^verbatim>\<open>?\<close>; \<open>decl_match_len\<close> is its length.
  The substitution deletes the matches from left to right.
\<close>

definition decl_match_len :: "string \<Rightarrow> nat option" where
  "decl_match_len s =
     (if ci_prefix ''<?xml'' s then
        (let rest = drop 5 s;
             n = length (takeWhile (\<lambda>c. c \<noteq> CHR ''>'') rest)
         in if n < length rest \<and> 0 < n \<and> rest ! (n - 1) = CHR ''?'' then Some (n + 6)
            else None)
      else None)"

function remove_xml_decl :: "string \<Rightarrow> string" where
  "remove_xml_decl [] = []"
| "remove_xml_decl (c # cs) =
     (case decl_match_len (c # cs) of
        Some n \<Rightarrow> remove_xml_decl (drop n (c # cs))
      | None \<Rightarrow> c # remove_xml_decl cs)"
  by pat_completeness auto
termination
  by (relation "measure length") (auto simp: decl_match_len_def Let_def split: if_splits)

definition START_TAG :: string where
  "START_TAG = ''<ownershipDocument''"

definition END_TAG :: string where
  "END_TAG = ''</ownershipDocument>''"

text \<open>
  The slice \<^verbatim>\<open>xml_text[a:b]\<close> is empty when \<open>b \<le> a\<close>. The end tag is searched from the
  start of the text; \<^verbatim>\<open>end_match.end()\<close> is the index after it.
\<close>

definition clean_and_extract_xml :: "string \<Rightarrow> py_exception + string" where
  "clean_and_extract_xml xml_text =
     (let start_match = re_search START_TAG xml_text;
          end_match = re_search END_TAG xml_text
      in case start_match of
           None \<Rightarrow> Inl ValueError
         | Some xml_start_index \<Rightarrow>
             (let cleaned_xml =
                    (case end_match of
                       Some e \<Rightarrow>
                         (let xml_end_index = e + length END_TAG
                          in take (xml_end_index - xml_start_index) (drop xml_start_index xml_text))
                     | None \<Rightarrow> drop xml_start_index xml_text)
              in Inr (strip (remove_xml_decl cleaned_xml))))"

section \<open>Scraper.py: \<^verbatim>\<open>parse_form4_url\<close>\<close>

definition TARGET_CODES :: "string list" where
  "TARGET_CODES = [''P'', ''S'', ''M'', ''X'', ''V'']"

definition VALUE_CODES :: "string list" where
  "VALUE_CODES = [''P'', ''S'']"

definition NAMESPACE :: string where
  "NAMESPACE = ''{http://www.sec.gov/edgar/v1}''"

subsection \<open>Filer and issuer metadata (lines 184-230)\<close>

record metadata =
  issuer_name :: string
  issuer_ticker :: string
  filer_name :: string
  filer_relationship :: string

definition initial_metadata :: metadata where
  "initial_metadata =
     \<lparr>issuer_name = ''UNKNOWN'', issuer_ticker = ''N/A'',
      filer_name = ''UNKNOWN'', filer_relationship = ''N/A''\<rparr>"

text \<open>The body of the loop over \<^verbatim>\<open>root.iter()\<close>: an \<^verbatim>\<open>if\<close>/\<^verbatim>\<open>elif\<close> chain of assignments.\<close>

definition metadata_step :: "'f py_ops \<Rightarrow> metadata \<Rightarrow> element \<Rightarrow> metadata" where
  "metadata_step fo m element =
     (if endswith (tag element) ''issuerName'' \<and> has_text element
        then m\<lparr>issuer_name := strip (text_str element)\<rparr>
      else if endswith (tag element) ''issuerTradingSymbol'' \<and> has_text element
        then m\<lparr>issuer_ticker := str_upper fo (strip (text_str element))\<rparr>
      else if endswith (tag element) ''rptOwnerName'' \<and> has_text element
        then m\<lparr>filer_name := strip (text_str element)\<rparr>
      else if endswith (tag element) ''rptOwnerTitle'' \<and> has_text element
        then m\<lparr>filer_relationship := strip (text_str element)\<rparr>
      else m)"

definition scan_metadata :: "'f py_ops \<Rightarrow> element \<Rightarrow> metadata" where
  "scan_metadata fo root = foldl (metadata_step fo) initial_metadata (iter root)"

text \<open>
  \<^verbatim>\<open>root.find('.//flag') is not None and root.find('.//flag').text.strip() == '1'\<close>:
  \<^verbatim>\<open>.strip()\<close> on a text that is \<^verbatim>\<open>None\<close> raises \<^verbatim>\<open>AttributeError\<close>.
\<close>

definition flag_is_one :: "element \<Rightarrow> string \<Rightarrow> py_exception + bool" where
  "flag_is_one root name =
     (case find_path root name of
        None \<Rightarrow> Inr False
      | Some e \<Rightarrow> (case text_of e of
                    None \<Rightarrow> Inl AttributeError
                  | Some s \<Rightarrow> Inr (strip s = ''1'')))"

definition other_label :: "element \<Rightarrow> string" where
  "other_label root =
     (case find_path root ''otherText'' of
        None \<Rightarrow> ''Other (Filer Specified)''
      | Some other_text_element \<Rightarrow>
          if has_text other_text_element then strip (text_str other_text_element)
          else ''Other (Filer Specified)'')"

text \<open>\<^verbatim>\<open>sep.join(xs)\<close>.\<close>

fun join :: "string \<Rightarrow> string list \<Rightarrow> string" where
  "join sep [] = []"
| "join sep [x] = x"
| "join sep (x # y # ys) = x @ sep @ join sep (y # ys)"

definition relationship_from_flags :: "element \<Rightarrow> py_exception + string" where
  "relationship_from_flags root =
     (case flag_is_one root ''isDirector'' of Inl e \<Rightarrow> Inl e | Inr is_director \<Rightarrow>
     (case flag_is_one root ''isOfficer'' of Inl e \<Rightarrow> Inl e | Inr is_officer \<Rightarrow>
     (case flag_is_one root ''isTenPercentOwner'' of Inl e \<Rightarrow> Inl e | Inr is_ten_percent \<Rightarrow>
     (case flag_is_one root ''isOther'' of Inl e \<Rightarrow> Inl e | Inr is_other \<Rightarrow>
        (let relationship_flags =
               (if is_director then [''Director''] else [])
             @ (if is_officer then [''Officer''] else [])
             @ (if is_ten_percent then [''10% Owner''] else [])
             @ (if is_other then [other_label root] else [])
         in Inr (if relationship_flags \<noteq> [] then join '', '' relationship_flags
                 else ''Other''))))))"

definition extract_metadata :: "'f py_ops \<Rightarrow> element \<Rightarrow> py_exception + metadata" where
  "extract_metadata fo root =
     (let m = scan_metadata fo root in
      if filer_relationship m = ''N/A'' \<or> filer_relationship m = [] then
        (case relationship_from_flags root of
           Inl e \<Rightarrow> Inl e
         | Inr r \<Rightarrow> Inr (m\<lparr>filer_relationship := r\<rparr>))
      else Inr m)"

subsection \<open>Transactions (lines 233-293)\<close>

text \<open>\<^verbatim>\<open>xs or ys\<close> on lists.\<close>

definition py_or :: "'a list \<Rightarrow> 'a list \<Rightarrow> 'a list" where
  "py_or xs ys = (if xs \<noteq> [] then xs else ys)"

definition transactions :: "element \<Rightarrow> element list" where
  "transactions root =
     (let non_derivative_transactions =
            py_or (findall root (NAMESPACE @ ''nonDerivativeTransaction''))
                  (findall root ''nonDerivativeTransaction'');
          derivative_transactions =
            py_or (findall root (NAMESPACE @ ''derivativeTransaction''))
                  (findall root ''derivativeTransaction'')
      in non_derivative_transactions @ derivative_transactions)"

text \<open>The loop over \<^verbatim>\<open>transaction.iter()\<close> that sets the code and the date.\<close>

definition code_date_step ::
  "'f py_ops \<Rightarrow> string \<times> string \<Rightarrow> element \<Rightarrow> string \<times> string"
where
  "code_date_step fo cd element =
     (if endswith (tag element) ''transactionCode'' \<and> has_text element
        then (str_upper fo (strip (text_str element)), snd cd)
      else if endswith (tag element) ''transactionDate''
        then (case find_path element ''value'' of
                None \<Rightarrow> cd
              | Some date_value_element \<Rightarrow>
                  if has_text date_value_element
                  then (fst cd, strip (text_str date_value_element))
                  else cd)
      else cd)"

definition scan_code_date :: "'f py_ops \<Rightarrow> element \<Rightarrow> string \<times> string" where
  "scan_code_date fo transaction =
     foldl (code_date_step fo) (''N/A'', ''N/A'') (iter transaction)"

text \<open>
  \<^verbatim>\<open>shares == 0.0\<close> is false when \<open>shares\<close> is \<^verbatim>\<open>None\<close>; \<^verbatim>\<open>shares * price\<close> raises
  \<^verbatim>\<open>TypeError\<close> when either operand is \<^verbatim>\<open>None\<close>.
\<close>

definition py_eq_zero :: "'f py_ops \<Rightarrow> 'f option \<Rightarrow> bool" where
  "py_eq_zero fo v = (case v of None \<Rightarrow> False | Some x \<Rightarrow> float_is_zero fo x)"

fun py_mul :: "'f py_ops \<Rightarrow> 'f option \<Rightarrow> 'f option \<Rightarrow> py_exception + 'f" where
  "py_mul fo (Some x) (Some y) = Inr (float_mul fo x y)"
| "py_mul fo _ _ = Inl TypeError"

definition opt_val :: "'f option \<Rightarrow> 'f pyval" where
  "opt_val v = (case v of None \<Rightarrow> PNone | Some x \<Rightarrow> PNum x)"

text \<open>
  The body of the loop over the transactions: the transaction is skipped (\<^verbatim>\<open>continue\<close>,
  or neither branch of the final filter applies), a trade is appended, or an exception
  leaves the loop.
\<close>

datatype 'f tx_result = Skipped | Appended "'f trade" | Raised py_exception

definition process_transaction :: "'f py_ops \<Rightarrow> metadata \<Rightarrow> element \<Rightarrow> 'f tx_result" where
  "process_transaction fo m transaction =
     (let transaction_code = fst (scan_code_date fo transaction);
          transaction_date = snd (scan_code_date fo transaction)
      in if transaction_code \<notin> set TARGET_CODES then Skipped
         else
           (let shares = extract_value_via_iteration fo transaction ''transactionShares''
            in if py_eq_zero fo shares then Skipped
               else
                 (let price =
                        extract_value_via_iteration fo transaction ''transactionPricePerShare''
                  in case py_mul fo shares price of
                       Inl e \<Rightarrow> Raised e
                     | Inr val \<Rightarrow>
                         (let is_value_trade = (transaction_code \<in> set VALUE_CODES);
                              trade =
                                [(''date'', PStr transaction_date),
                                 (''code'', PStr transaction_code),
                                 (''ticker'', PStr (issuer_ticker m)),
                                 (''shares'', opt_val shares),
                                 (''price'', opt_val price),
                                 (''value'', PNum val),
                                 (''company_name'', PStr (issuer_name m)),
                                 (''filer'', PStr (filer_name m)),
                                 (''person_title'', PStr (filer_relationship m)),
                                 (''is_value_trade'', PBool is_value_trade)]
                          in if is_value_trade \<and> float_ge fo val (MIN_TRADE_VALUE fo)
                               then Appended trade
                             else if \<not> is_value_trade then Appended trade
                             else Skipped))))"

text \<open>
  The loop itself: \<open>trades\<close> is the list being built; an exception ends the loop with
  the trades appended so far and is handed to the \<^verbatim>\<open>except\<close> clauses.
\<close>

fun process_transactions ::
  "'f py_ops \<Rightarrow> metadata \<Rightarrow> 'f trade list \<Rightarrow> element list
     \<Rightarrow> 'f trade list \<times> py_exception option"
where
  "process_transactions fo m trades [] = (trades, None)"
| "process_transactions fo m trades (transaction # rest) =
     (case process_transaction fo m transaction of
        Skipped \<Rightarrow> process_transactions fo m trades rest
      | Appended trade \<Rightarrow> process_transactions fo m (trades @ [trade]) rest
      | Raised e \<Rightarrow> (trades, Some e))"

subsection \<open>The whole function\<close>

text \<open>
  The \<^verbatim>\<open>try\<close> block of lines 180-293 on a downloaded text. \<open>fromstring\<close> is
  \<^verbatim>\<open>ET.fromstring\<close>, with \<open>None\<close> for \<^verbatim>\<open>ParseError\<close>. The result is the list \<open>trades\<close> as
  it stands when the block is left, with the exception that left it, if any. Every
  \<^verbatim>\<open>except\<close> clause only prints, and the function then returns \<open>trades\<close>.
\<close>

definition parse_body ::
  "'f py_ops \<Rightarrow> (string \<Rightarrow> element option) \<Rightarrow> string
     \<Rightarrow> 'f trade list \<times> py_exception option"
where
  "parse_body fo fromstring xml_text =
     (case clean_and_extract_xml xml_text of
        Inl e \<Rightarrow> ([], Some e)
      | Inr cleaned_xml_text \<Rightarrow>
          (case fromstring cleaned_xml_text of
             None \<Rightarrow> ([], Some ParseError)
           | Some root \<Rightarrow>
               (case extract_metadata fo root of
                  Inl e \<Rightarrow> ([], Some e)
                | Inr m \<Rightarrow> process_transactions fo m [] (transactions root))))"

text \<open>
  \<open>http_get\<close> is the download of lines 173-175, with \<open>None\<close> for a
  \<^verbatim>\<open>RequestException\<close>. \<open>parse_form4_url_run\<close> keeps the exception that was caught beside
  the returned list; \<open>parse_form4_url\<close> is what the caller receives.
\<close>

definition parse_form4_url_run ::
  "'f py_ops \<Rightarrow> (string \<Rightarrow> string option) \<Rightarrow> (string \<Rightarrow> element option) \<Rightarrow> string
     \<Rightarrow> 'f trade list \<times> py_exception option"
where
  "parse_form4_url_run fo http_get fromstring xml_url =
     (case http_get xml_url of
        None \<Rightarrow> ([], Some RequestException)
      | Some xml_text \<Rightarrow> parse_body fo fromstring xml_text)"

definition parse_form4_url ::
  "'f py_ops \<Rightarrow> (string \<Rightarrow> string option) \<Rightarrow> (string \<Rightarrow> element option) \<Rightarrow> string
     \<Rightarrow> 'f trade list"
where
  "parse_form4_url fo http_get fromstring xml_url =
     fst (parse_form4_url_run fo http_get fromstring xml_url)"

section \<open>An instance of the abstract operations, for concrete inputs\<close>

text \<open>
  The theorems below hold for every \<open>py_ops\<close>. To evaluate the functions on concrete
  documents, \<open>whole_ops\<close> instantiates floats with the natural numbers: \<^verbatim>\<open>float()\<close> accepts
  the strings of decimal digits and rejects every other string, \<^verbatim>\<open>str()\<close> prints the
  number followed by \<^verbatim>\<open>.0\<close>. Its \<^verbatim>\<open>upper()\<close> capitalises the ASCII letters, which is
  what \<^verbatim>\<open>str.upper()\<close> does on the ASCII texts of the concrete documents.
\<close>

definition digit_val :: "char \<Rightarrow> nat option" where
  "digit_val c = map_of (zip ''0123456789'' [0, 1, 2, 3, 4, 5, 6, 7, 8, 9]) c"

fun digits_to_nat :: "nat \<Rightarrow> string \<Rightarrow> nat option" where
  "digits_to_nat acc [] = Some acc"
| "digits_to_nat acc (c # cs) =
     (case digit_val c of None \<Rightarrow> None | Some d \<Rightarrow> digits_to_nat (10 * acc + d) cs)"

definition whole_of_str :: "string \<Rightarrow> nat option" where
  "whole_of_str s = (if s = [] then None else digits_to_nat 0 s)"

function nat_to_digits :: "nat \<Rightarrow> string" where
  "nat_to_digits n =
     (if n < 10 then [''0123456789'' ! n]
      else nat_to_digits (n div 10) @ [''0123456789'' ! (n mod 10)])"
  by pat_completeness auto
termination
  by (relation "measure id") auto

declare nat_to_digits.simps [simp del]

definition ascii_upper_char :: "char \<Rightarrow> char" where
  "ascii_upper_char c =
     (case map_of (zip ''abcdefghijklmnopqrstuvwxyz'' ''ABCDEFGHIJKLMNOPQRSTUVWXYZ'') c of
        None \<Rightarrow> c | Some u \<Rightarrow> u)"

definition ascii_upper :: "string \<Rightarrow> string" where
  "ascii_upper s = map ascii_upper_char s"

definition whole_ops :: "nat py_ops" where
  "whole_ops =
     \<lparr>float_of_str = whole_of_str,
      float_mul = (\<lambda>x y. x * y),
      float_ge = (\<lambda>x y. x \<ge> y),
      float_is_zero = (\<lambda>x. x = 0),
      float_zero = 0,
      float_str = (\<lambda>x. nat_to_digits x @ ''.0''),
      MIN_TRADE_VALUE = 1000000,
      str_upper = ascii_upper\<rparr>"

section \<open>An invariant of the deduplication dictionary\<close>

text \<open>
  Every entry of \<open>unique_trades\<close> is stored under the key of its trade, and no key occurs
  twice.
\<close>

definition keyed :: "'f py_ops \<Rightarrow> ('f trade_key \<times> 'f trade) list \<Rightarrow> bool" where
  "keyed fo d = (list_all (\<lambda>kt. fst kt = unique_key fo (snd kt)) d \<and> distinct (map fst d))"

section \<open>Concrete inputs\<close>

text \<open>
  Two trades with the same key and different other fields, and a third trade with
  another key.
\<close>

definition trade_a :: "nat trade" where
  "trade_a =
     [(''date'', PStr ''2024-01-02''), (''code'', PStr ''P''), (''ticker'', PStr ''ABC''),
      (''shares'', PNum 1000), (''price'', PNum 2000), (''value'', PNum 2000000),
      (''company_name'', PStr ''ABC Corp''), (''filer'', PStr ''DOE JOHN''),
      (''person_title'', PStr ''CEO''), (''is_value_trade'', PBool True)]"

definition trade_a' :: "nat trade" where
  "trade_a' =
     [(''date'', PStr ''2024-01-02''), (''code'', PStr ''P''), (''ticker'', PStr ''ABC''),
      (''shares'', PNum 1000), (''price'', PNum 2000), (''value'', PNum 7),
      (''company_name'', PStr ''Renamed Inc''), (''filer'', PStr ''DOE JOHN''),
      (''person_title'', PStr ''Director''), (''is_value_trade'', PBool True)]"

definition trade_b :: "nat trade" where
  "trade_b =
     [(''date'', PStr ''2024-01-03''), (''code'', PStr ''M''), (''ticker'', PStr ''ABC''),
      (''shares'', PNum 500), (''price'', PNum 0), (''value'', PNum 0),
      (''company_name'', PStr ''ABC Corp''), (''filer'', PStr ''DOE JOHN''),
      (''person_title'', PStr ''CEO''), (''is_value_trade'', PBool False)]"

text \<open>
  A request without a JSON content type and without an API key, and a JSON request
  carrying a wrong key.
\<close>

definition plain_request :: "nat request" where
  "plain_request = \<lparr>is_json = False, get_json = None, x_api_key = None\<rparr>"

definition wrong_key_request :: "nat request" where
  "wrong_key_request =
     \<lparr>is_json = True, get_json = Some (JsonObject (TradesList [trade_b])),
      x_api_key = Some ''guess''\<rparr>"

text \<open>
  An index of two records, a Form 4 and a 10-K, and a Form 4 record with a sixth field.
\<close>

definition sample_index :: string where
  "sample_index = ''1|ACME|4|20240102|edgar/data/1/a.txt'' @ [CHR 0x0A] @ ''2|ACME|10-K|20240102|edgar/data/1/b.txt''"

definition six_field_line :: string where
  "six_field_line = ''1|ACME|4|20240102|edgar/data/1/a.txt|x''"

section \<open>The sanitizer's contract in the words of the specification\<close>

text \<open>
  The text contains a case-insensitive occurrence of a marker: some part of it equals the
  marker up to the case of the letters.
\<close>

definition occurs_ci :: "string \<Rightarrow> string \<Rightarrow> bool" where
  "occurs_ci pat s =
     (\<exists>pre mid post. s = pre @ mid @ post \<and> map lower_char mid = map lower_char pat)"

text \<open>A filing text with an opening root tag and no closing one, and a text with neither.\<close>

definition unclosed_filing :: string where
  "unclosed_filing = ''hdr <OwnershipDocument><?xml v?><a/> ''"

definition no_filing :: string where
  "no_filing = ''<html>404</html>''"

section \<open>The metadata scan in the words of the specification\<close>

text \<open>
  The first and the last element, in document order, whose tag ends with a suffix and
  whose text is not empty.
\<close>

definition first_match :: "string \<Rightarrow> element \<Rightarrow> element option" where
  "first_match suf root = find (\<lambda>e. endswith (tag e) suf \<and> has_text e) (iter root)"

definition last_match :: "string \<Rightarrow> element \<Rightarrow> element option" where
  "last_match suf root =
     (case rev (filter (\<lambda>e. endswith (tag e) suf \<and> has_text e) (iter root)) of
        [] \<Rightarrow> None
      | e # _ \<Rightarrow> Some e)"

section \<open>A sample filing\<close>

text \<open>
  A filing with two reporting owners and three transactions: a purchase of 1,000 shares
  at 2000, an option exercise of 500 shares at price 0, and an exercise that reports no
  share amount. \<open>sample_fromstring\<close> is a parser that knows this one document: it maps
  the sanitized text of the filing to its element tree.
\<close>

definition leaf :: "string \<Rightarrow> string \<Rightarrow> element" where
  "leaf name s = Element name (Some s) []"

definition node :: "string \<Rightarrow> element list \<Rightarrow> element" where
  "node name cs = Element name None cs"

definition tx_purchase :: element where
  "tx_purchase =
     node ''nonDerivativeTransaction''
       [node ''transactionDate'' [leaf ''value'' ''2024-01-02''],
        node ''transactionCoding'' [leaf ''transactionCode'' ''p''],
        node ''transactionAmounts''
          [node ''transactionShares'' [leaf ''value'' ''1,000''],
           node ''transactionPricePerShare'' [leaf ''value'' ''2000'']]]"

definition tx_exercise :: element where
  "tx_exercise =
     node ''derivativeTransaction''
       [node ''transactionDate'' [leaf ''value'' ''2024-01-03''],
        node ''transactionCoding'' [leaf ''transactionCode'' ''M''],
        node ''transactionAmounts''
          [node ''transactionShares'' [leaf ''value'' ''500''],
           node ''transactionPricePerShare'' [leaf ''value'' ''0'']]]"

definition tx_no_shares :: element where
  "tx_no_shares =
     node ''derivativeTransaction''
       [node ''transactionCoding'' [leaf ''transactionCode'' ''M'']]"

definition sample_root :: element where
  "sample_root =
     node ''ownershipDocument''
       [node ''issuer''
          [leaf ''issuerName'' ''ABC Corp'', leaf ''issuerTradingSymbol'' ''abc''],
        node ''reportingOwner'' [leaf ''rptOwnerName'' ''ROE JANE''],
        node ''reportingOwner''
          [leaf ''rptOwnerName'' ''DOE JOHN'', leaf ''rptOwnerTitle'' ''CEO''],
        node ''nonDerivativeTable'' [tx_purchase],
        node ''derivativeTable'' [tx_exercise, tx_no_shares]]"

definition sample_body :: string where
  "sample_body =
     ''><issuer><issuerName>ABC Corp</issuerName>''
     @ ''<issuerTradingSymbol>abc</issuerTradingSymbol></issuer>''
     @ ''<reportingOwner><rptOwnerName>ROE JANE</rptOwnerName></reportingOwner>''
     @ ''<reportingOwner><rptOwnerName>DOE JOHN</rptOwnerName>''
     @ ''<rptOwnerTitle>CEO</rptOwnerTitle></reportingOwner>''
     @ ''<nonDerivativeTable><nonDerivativeTransaction>''
     @ ''<transactionDate><value>2024-01-02</value></transactionDate>''
     @ ''<transactionCoding><transactionCode>p</transactionCode></transactionCoding>''
     @ ''<transactionAmounts><transactionShares><value>1,000</value></transactionShares>''
     @ ''<transactionPricePerShare><value>2000</value></transactionPricePerShare>''
     @ ''</transactionAmounts></nonDerivativeTransaction></nonDerivativeTable>''
     @ ''<derivativeTable><derivativeTransaction>''
     @ ''<transactionDate><value>2024-01-03</value></transactionDate>''
     @ ''<transactionCoding><transactionCode>M</transactionCode></transactionCoding>''
     @ ''<transactionAmounts><transactionShares><value>500</value></transactionShares>''
     @ ''<transactionPricePerShare><value>0</value></transactionPricePerShare>''
     @ ''</transactionAmounts></derivativeTransaction>''
     @ ''<derivativeTransaction>''
     @ ''<transactionCoding><transactionCode>M</transactionCode></transactionCoding>''
     @ ''</derivativeTransaction></derivativeTable>''
     @ ''</ownershipDocument></XML>''"

definition sample_text :: string where
  "sample_text = ''<XML>'' @ START_TAG @ sample_body"

definition sample_url :: string where
  "sample_url = ''https://www.sec.gov/Archives/edgar/data/1/a.txt''"

definition sample_http_get :: "string \<Rightarrow> string option" where
  "sample_http_get url = (if url = sample_url then Some sample_text else None)"

definition sample_fromstring :: "string \<Rightarrow> element option" where
  "sample_fromstring s =
     (if clean_and_extract_xml sample_text = Inr s then Some sample_root else None)"

definition sample_metadata :: metadata where
  "sample_metadata =
     \<lparr>issuer_name = ''ABC Corp'', issuer_ticker = ''ABC'',
      filer_name = ''DOE JOHN'', filer_relationship = ''CEO''\<rparr>"

text \<open>A purchase that reports a share amount of zero, and an address that cannot be fetched.\<close>

definition tx_zero_shares :: element where
  "tx_zero_shares =
     node ''nonDerivativeTransaction''
       [node ''transactionCoding'' [leaf ''transactionCode'' ''P''],
        node ''transactionAmounts''
          [node ''transactionShares'' [leaf ''value'' ''0''],
           node ''transactionPricePerShare'' [leaf ''value'' ''2000'']]]"

definition missing_url :: string where
  "missing_url = ''https://www.sec.gov/Archives/edgar/data/1/none.txt''"

text \<open>A document whose \<^verbatim>\<open>isDirector\<close> element has no text.\<close>

definition flag_without_text_root :: element where
  "flag_without_text_root = node ''ownershipDocument'' [node ''isDirector'' []]"

text \<open>
  A document that names an owner without a title and sets the director and ten-percent
  flags, with the metadata extracted from it.
\<close>

definition flags_root :: element where
  "flags_root =
     node ''ownershipDocument''
       [node ''reportingOwner''
          [leaf ''rptOwnerName'' ''DOE JOHN'',
           node ''reportingOwnerRelationship''
             [leaf ''isDirector'' ''1'', leaf ''isOfficer'' ''0'',
              leaf ''isTenPercentOwner'' ''1'']]]"

definition flags_metadata :: metadata where
  "flags_metadata =
     \<lparr>issuer_name = ''UNKNOWN'', issuer_ticker = ''N/A'',
      filer_name = ''DOE JOHN'', filer_relationship = ''Director, 10% Owner''\<rparr>"

section \<open>Theorems: the deduplicating merge\<close>


lemma dedup_loop_append:
  "dedup_loop fo d (xs @ ys) = dedup_loop fo (dedup_loop fo d xs) ys"
  by (induction xs arbitrary: d) auto

lemma dedup_loop_keyed: "keyed fo d \<Longrightarrow> keyed fo (dedup_loop fo d ts)"
proof (induction ts arbitrary: d)
  case Nil then show ?case by simp
next
  case (Cons t ts)
  show ?case
  proof (cases "map_of d (unique_key fo t) = None")
    case True
    then have "unique_key fo t \<notin> fst ` set d" by (simp add: map_of_eq_None_iff)
    with Cons.prems have "keyed fo (d @ [(unique_key fo t, t)])"
      by (auto simp: keyed_def)
    with True Cons.IH show ?thesis by simp
  next
    case False
    then have "dedup_loop fo d (t # ts) = dedup_loop fo d ts" by auto
    with Cons show ?thesis by simp
  qed
qed

lemma dedup_loop_map_of:
  "map_of (dedup_loop fo d ts) k =
     (case map_of d k of Some v \<Rightarrow> Some v | None \<Rightarrow> find (\<lambda>t. unique_key fo t = k) ts)"
proof (induction ts arbitrary: d)
  case Nil then show ?case by (simp split: option.splits)
next
  case (Cons t ts)
  show ?case
    by (auto simp: Cons.IH map_add_def split: option.splits)
qed


lemma dedup_loop_replay:
  "keyed fo (acc @ d) \<Longrightarrow> dedup_loop fo acc (map snd d @ ts) = dedup_loop fo (acc @ d) ts"
proof (induction d arbitrary: acc)
  case Nil then show ?case by simp
next
  case (Cons kt d)
  obtain k t where kt: "kt = (k, t)" by (cases kt)
  from Cons.prems kt have k: "k = unique_key fo t" and notin: "k \<notin> fst ` set acc"
    by (auto simp: keyed_def)
  from notin have none: "map_of acc k = None" by (simp add: map_of_eq_None_iff)
  from Cons.prems have "keyed fo ((acc @ [kt]) @ d)" by simp
  from Cons.IH[OF this] none k kt show ?case by simp
qed

lemma dedup_loop_known:
  "list_all (\<lambda>t. map_of d (unique_key fo t) \<noteq> None) ts \<Longrightarrow> dedup_loop fo d ts = d"
  by (induction ts) auto

lemma dedup_loop_covers:
  "list_all (\<lambda>t. map_of (dedup_loop fo d ts) (unique_key fo t) \<noteq> None) ts"
  unfolding list_all_iff
proof
  fix t assume "t \<in> set ts"
  then have "find (\<lambda>r. unique_key fo r = unique_key fo t) ts \<noteq> None"
    by (auto simp: find_None_iff)
  then show "map_of (dedup_loop fo d ts) (unique_key fo t) \<noteq> None"
    by (simp add: dedup_loop_map_of split: option.splits)
qed


lemma keyed_Nil: "keyed fo []"
  by (simp add: keyed_def)

lemma keyed_dedup: "keyed fo (dedup_loop fo [] ts)"
  by (rule dedup_loop_keyed[OF keyed_Nil])

lemma dedup_fixpoint:
  "dedup_loop fo [] (map snd (dedup_loop fo [] (S @ B)) @ B) = dedup_loop fo [] (S @ B)"
proof -
  let ?d = "dedup_loop fo [] (S @ B)"
  have k: "keyed fo ([] @ ?d)" using keyed_dedup[of fo "S @ B"] by simp
  have "list_all (\<lambda>t. map_of ?d (unique_key fo t) \<noteq> None) (S @ B)" by (rule dedup_loop_covers)
  then have cov: "list_all (\<lambda>t. map_of ?d (unique_key fo t) \<noteq> None) B" by simp
  have "dedup_loop fo [] (map snd ?d @ B) = dedup_loop fo ([] @ ?d) B"
    by (rule dedup_loop_replay[OF k])
  also have "\<dots> = ?d" using dedup_loop_known[OF cov] by simp
  finally show ?thesis .
qed

lemma merge_again: "merge fo (merge fo S B) B = merge fo S B"
  by (simp add: merge_def deduplicate_trades_def dedup_fixpoint)

lemma upload_store_cases:
  "snd (upload_trades fo k S req) = S \<or>
   (\<exists>B. snd (upload_trades fo k S req) = merge fo S B \<and>
        (\<forall>S'. snd (upload_trades fo k S' req) = merge fo S' B))"
proof (cases "is_json req \<and> get_json req \<noteq> None \<and> x_api_key req = Some k")
  case False
  then show ?thesis by (auto simp: upload_trades_def split: option.splits)
next
  case True
  then obtain payload where p: "get_json req = Some payload" by auto
  show ?thesis
  proof (cases payload)
    case JsonOther
    with True p show ?thesis by (simp add: upload_trades_def)
  next
    case (JsonObject field)
    show ?thesis
    proof (cases field)
      case TradesMissing
      with True p JsonObject have "\<forall>S'. snd (upload_trades fo k S' req) = merge fo S' []"
        by (simp add: upload_trades_def merge_def Let_def)
      then show ?thesis by blast
    next
      case TradesNotAList
      with True p JsonObject show ?thesis by (simp add: upload_trades_def)
    next
      case (TradesList ts)
      with True p JsonObject have "\<forall>S'. snd (upload_trades fo k S' req) = merge fo S' ts"
        by (simp add: upload_trades_def merge_def Let_def)
      then show ?thesis by blast
    qed
  qed
qed

lemma upload_rejected_store:
  "fst (fst (upload_trades fo k S req)) \<noteq> 200 \<Longrightarrow> snd (upload_trades fo k S req) = S"
  by (auto simp: upload_trades_def Let_def split: option.splits json_body.splits trades_field.splits if_splits)

text \<open>
  C2. Merging the same batch a second time into the result of the first merge gives the
  same list of trades, hence the same set; and an upload request repeated on the store
  it produced leaves that store as it is.
\<close>

theorem merge_idempotent:
  "merge fo (merge fo S B) B = merge fo S B
   \<and> set (merge fo (merge fo S B) B) = set (merge fo S B)
   \<and> snd (upload_trades fo k (snd (upload_trades fo k S req)) req) = snd (upload_trades fo k S req)"
proof -
  have m: "merge fo (merge fo S B) B = merge fo S B" by (rule merge_again)
  have "snd (upload_trades fo k (snd (upload_trades fo k S req)) req) = snd (upload_trades fo k S req)"
  proof (cases "fst (fst (upload_trades fo k S req)) = 200")
    case False
    then have "snd (upload_trades fo k S req) = S" by (rule upload_rejected_store)
    then show ?thesis by simp
  next
    case True
    from upload_store_cases[of fo k S req] show ?thesis
    proof
      assume "snd (upload_trades fo k S req) = S"
      then show ?thesis by simp
    next
      assume "\<exists>B. snd (upload_trades fo k S req) = merge fo S B \<and>
        (\<forall>S'. snd (upload_trades fo k S' req) = merge fo S' B)"
      then obtain B' where "snd (upload_trades fo k S req) = merge fo S B'"
        and "\<forall>S'. snd (upload_trades fo k S' req) = merge fo S' B'" by blast
      then show ?thesis by (simp add: merge_again)
    qed
  qed
  with m show ?thesis by simp
qed


lemma key_trade_a': "unique_key whole_ops trade_a' = unique_key whole_ops trade_a"
  by (simp add: unique_key_def trade_a_def trade_a'_def dict_get_def dict_get_default_def)

lemma key_trade_b: "unique_key whole_ops trade_b \<noteq> unique_key whole_ops trade_a"
  by (simp add: unique_key_def trade_a_def trade_b_def dict_get_def dict_get_default_def)

lemma merge_example: "merge whole_ops [trade_a] [trade_a', trade_b] = [trade_a, trade_b]"
  by (simp add: merge_def deduplicate_trades_def key_trade_a' key_trade_b)

theorem merge_idempotent_witness:
  "merge whole_ops (merge whole_ops [trade_a] [trade_a', trade_b]) [trade_a', trade_b]
     = [trade_a, trade_b]"
  using merge_idempotent[of whole_ops "[trade_a]" "[trade_a', trade_b]"]
  by (simp only: merge_example)


section \<open>Theorems: the upload endpoint\<close>

text \<open>
  C10. A request that is not JSON is answered 400, with the store untouched, whatever
  its \<^verbatim>\<open>X-API-KEY\<close> header holds: when the content type is not JSON the endpoint itself
  answers "Missing JSON", and when the body does not parse the framework rejects it
  before the key is read. Hence a 403 is only returned to a request with a JSON content
  type and a parsed JSON body, and only when the key differs.
\<close>

theorem upload_validates_before_authenticating:
  "(\<not> is_json req \<longrightarrow>
      upload_trades fo k S (req\<lparr>x_api_key := h\<rparr>) = ((400, MissingJSON), S))
   \<and> (get_json req = None \<longrightarrow>
      fst (fst (upload_trades fo k S (req\<lparr>x_api_key := h\<rparr>))) = 400
      \<and> snd (upload_trades fo k S (req\<lparr>x_api_key := h\<rparr>)) = S)
   \<and> (fst (fst (upload_trades fo k S req)) = 403 \<longrightarrow>
      is_json req \<and> get_json req \<noteq> None \<and> x_api_key req \<noteq> Some k)"
proof (intro conjI impI)
  assume "\<not> is_json req"
  then show "upload_trades fo k S (req\<lparr>x_api_key := h\<rparr>) = ((400, MissingJSON), S)"
    by (simp add: upload_trades_def)
next
  assume "get_json req = None"
  then show "fst (fst (upload_trades fo k S (req\<lparr>x_api_key := h\<rparr>))) = 400"
    by (simp add: upload_trades_def)
next
  assume "get_json req = None"
  then show "snd (upload_trades fo k S (req\<lparr>x_api_key := h\<rparr>)) = S"
    by (simp add: upload_trades_def)
next
  assume a: "fst (fst (upload_trades fo k S req)) = 403"
  show "is_json req"
  proof (rule ccontr)
    assume "\<not> is_json req"
    then have "fst (fst (upload_trades fo k S req)) = 400" by (simp add: upload_trades_def)
    with a show False by simp
  qed
  then have j: "is_json req" .
  show g: "get_json req \<noteq> None"
  proof
    assume "get_json req = None"
    with j have "fst (fst (upload_trades fo k S req)) = 400" by (simp add: upload_trades_def)
    with a show False by simp
  qed
  then obtain payload where p: "get_json req = Some payload" by auto
  show "x_api_key req \<noteq> Some k"
  proof
    assume "x_api_key req = Some k"
    with j p have "fst (fst (upload_trades fo k S req)) \<in> {200, 400, 500}"
      by (simp add: upload_trades_def Let_def split: json_body.splits trades_field.splits)
    with a show False by simp
  qed
qed

theorem upload_validates_before_authenticating_witness:
  "\<not> is_json plain_request
   \<and> get_json plain_request = None
   \<and> upload_trades whole_ops ''secret'' [trade_a] (plain_request\<lparr>x_api_key := None\<rparr>)
       = ((400, MissingJSON), [trade_a])
   \<and> fst (fst (upload_trades whole_ops ''secret'' [trade_a] wrong_key_request)) = 403
   \<and> is_json wrong_key_request"
proof -
  have n: "\<not> is_json plain_request" and g: "get_json plain_request = None"
    by (simp_all add: plain_request_def)
  have f: "fst (fst (upload_trades whole_ops ''secret'' [trade_a] wrong_key_request)) = 403"
    by (simp add: upload_trades_def wrong_key_request_def)
  from upload_validates_before_authenticating
         [of plain_request whole_ops "''secret''" "[trade_a]" None] n
  have a: "upload_trades whole_ops ''secret'' [trade_a] (plain_request\<lparr>x_api_key := None\<rparr>)
       = ((400, MissingJSON), [trade_a])"
    by blast
  from upload_validates_before_authenticating
         [of wrong_key_request whole_ops "''secret''" "[trade_a]"] f
  have b: "is_json wrong_key_request" by blast
  from n g a f b show ?thesis by blast
qed

section \<open>Theorems: the daily index\<close>

lemma form4_urls_loop_acc:
  "form4_urls_loop acc lines = acc @ concat (map line_urls lines)"
  by (induction lines arbitrary: acc) auto

lemma line_urls_cases:
  "line_urls line =
     (if length (split_on CHR ''|'' line) = 5 \<and> split_on CHR ''|'' line ! 2 = ''4''
      then [''https://www.sec.gov/Archives/'' @ split_on CHR ''|'' line ! 4] else [])"
  by (simp add: line_urls_def Let_def)

lemma concat_line_urls:
  "concat (map line_urls lines) =
     map (\<lambda>line. ''https://www.sec.gov/Archives/'' @ split_on CHR ''|'' line ! 4)
       (filter (\<lambda>line. length (split_on CHR ''|'' line) = 5 \<and> split_on CHR ''|'' line ! 2 = ''4'')
          lines)"
  by (induction lines) (simp_all add: line_urls_cases)

text \<open>
  C6, as the code has it. A line of the index yields a URL exactly when it has exactly
  five pipe-delimited fields and its third field is \<^verbatim>\<open>4\<close>; the URL is the archive prefix
  followed by the fifth field, and the URLs come out in the order of the lines. A failed
  download yields no URL.
\<close>

theorem index_filtering:
  "line_urls line =
     (if length (split_on CHR ''|'' line) = 5 \<and> split_on CHR ''|'' line ! 2 = ''4''
      then [''https://www.sec.gov/Archives/'' @ split_on CHR ''|'' line ! 4] else [])
   \<and> get_form4_urls_from_index (IndexText t) =
       map (\<lambda>line. ''https://www.sec.gov/Archives/'' @ split_on CHR ''|'' line ! 4)
         (filter (\<lambda>line. length (split_on CHR ''|'' line) = 5 \<and> split_on CHR ''|'' line ! 2 = ''4'')
            (splitlines t))
   \<and> get_form4_urls_from_index (IndexHttpError status) = []
   \<and> get_form4_urls_from_index IndexNetworkError = []"
  by (simp add: line_urls_cases form4_urls_loop_acc concat_line_urls)

lemma sample_index_lines:
  "splitlines sample_index =
     [''1|ACME|4|20240102|edgar/data/1/a.txt'', ''2|ACME|10-K|20240102|edgar/data/1/b.txt'']"
  by (simp add: sample_index_def splitlines_def is_linebreak_def)

lemma sample_line_fields:
  "split_on CHR ''|'' ''1|ACME|4|20240102|edgar/data/1/a.txt''
     = [''1'', ''ACME'', ''4'', ''20240102'', ''edgar/data/1/a.txt'']"
  "split_on CHR ''|'' ''2|ACME|10-K|20240102|edgar/data/1/b.txt''
     = [''2'', ''ACME'', ''10-K'', ''20240102'', ''edgar/data/1/b.txt'']"
  by simp_all

theorem index_filtering_witness:
  "get_form4_urls_from_index (IndexText sample_index)
     = [''https://www.sec.gov/Archives/edgar/data/1/a.txt'']"
  using index_filtering[of "[]" sample_index 0]
  by (simp add: sample_index_lines sample_line_fields)

lemma six_field_line_fields:
  "split_on CHR ''|'' six_field_line
     = [''1'', ''ACME'', ''4'', ''20240102'', ''edgar/data/1/a.txt'', ''x'']"
  by (simp add: six_field_line_def)

text \<open>
  The specification asks for at least five fields. A Form 4 line with six fields
  meets that condition and yields no URL.
\<close>

theorem index_filtering_counterexample:
  "length (split_on CHR ''|'' six_field_line) \<ge> 5
   \<and> split_on CHR ''|'' six_field_line ! 2 = ''4''
   \<and> line_urls six_field_line = []
   \<and> get_form4_urls_from_index (IndexText six_field_line) = []"
proof -
  have "splitlines six_field_line = [six_field_line]"
    by (simp add: six_field_line_def splitlines_def is_linebreak_def)
  then show ?thesis
    by (simp add: line_urls_def six_field_line_fields)
qed

section \<open>Theorems: the sanitizer\<close>

lemma re_search_Some:
  "re_search pat s = Some i \<Longrightarrow>
     i \<le> length s \<and> ci_prefix pat (drop i s) \<and> (\<forall>j<i. \<not> ci_prefix pat (drop j s))"
proof (induction s arbitrary: i)
  case Nil
  then show ?case by (simp add: ci_prefix_def split: if_splits)
next
  case (Cons c cs)
  show ?case
  proof (cases "ci_prefix pat (c # cs)")
    case True
    with Cons.prems show ?thesis by simp
  next
    case False
    with Cons.prems obtain i' where i': "re_search pat cs = Some i'" "i = Suc i'"
      by auto
    from Cons.IH[OF i'(1)] have ih: "i' \<le> length cs" "ci_prefix pat (drop i' cs)"
      "\<forall>j<i'. \<not> ci_prefix pat (drop j cs)" by auto
    have "\<not> ci_prefix pat (drop j (c # cs))" if "j < i" for j
    proof (cases j)
      case 0
      with False show ?thesis by simp
    next
      case (Suc j')
      with that i' ih(3) show ?thesis by simp
    qed
    with ih i' show ?thesis by simp
  qed
qed

lemma re_search_None:
  "re_search pat s = None \<Longrightarrow> j \<le> length s \<Longrightarrow> \<not> ci_prefix pat (drop j s)"
proof (induction s arbitrary: j)
  case Nil
  then show ?case by (auto simp: ci_prefix_def split: if_splits)
next
  case (Cons c cs)
  from Cons.prems(1) have a: "\<not> ci_prefix pat (c # cs)" and b: "re_search pat cs = None"
    by (auto split: if_splits)
  show ?case
  proof (cases j)
    case 0
    with a show ?thesis by simp
  next
    case (Suc j')
    with Cons.prems(2) Cons.IH[OF b, of j'] show ?thesis by simp
  qed
qed

lemma occurs_ci_at:
  "occurs_ci pat s \<longleftrightarrow> (\<exists>j \<le> length s. ci_prefix pat (drop j s))"
proof
  assume "occurs_ci pat s"
  then obtain pre mid post where s: "s = pre @ mid @ post"
    and m: "map lower_char mid = map lower_char pat"
    by (auto simp: occurs_ci_def)
  from m have "length mid = length pat" by (rule map_eq_imp_length_eq)
  with s m have "ci_prefix pat (drop (length pre) s)" by (simp add: ci_prefix_def)
  moreover from s have "length pre \<le> length s" by simp
  ultimately show "\<exists>j \<le> length s. ci_prefix pat (drop j s)" by blast
next
  assume "\<exists>j \<le> length s. ci_prefix pat (drop j s)"
  then obtain j where j: "j \<le> length s" "ci_prefix pat (drop j s)" by blast
  have "drop j s = take (length pat) (drop j s) @ drop (length pat) (drop j s)"
    by (simp only: append_take_drop_id)
  then have "take j s @ drop j s
               = take j s @ take (length pat) (drop j s) @ drop (length pat) (drop j s)"
    by (rule arg_cong)
  then have "s = take j s @ take (length pat) (drop j s) @ drop (length pat) (drop j s)"
    by (simp only: append_take_drop_id)
  with j(2) show "occurs_ci pat s"
    unfolding occurs_ci_def ci_prefix_def by blast
qed

lemma occurs_ci_search: "occurs_ci pat s \<longleftrightarrow> re_search pat s \<noteq> None"
proof (cases "re_search pat s")
  case None
  then show ?thesis using re_search_None[of pat s] by (auto simp: occurs_ci_at)
next
  case (Some i)
  with re_search_Some[OF Some] show ?thesis by (auto simp: occurs_ci_at)
qed

lemma split_at_index:
  "s = pre' @ mid @ post \<Longrightarrow> map lower_char mid = map lower_char pat \<Longrightarrow>
     ci_prefix pat (drop (length pre') s)"
proof -
  assume s: "s = pre' @ mid @ post" and m: "map lower_char mid = map lower_char pat"
  from m have "length mid = length pat" by (rule map_eq_imp_length_eq)
  with s m show ?thesis by (simp add: ci_prefix_def)
qed

text \<open>
  C7. The sanitizer fails exactly when the text holds no occurrence of the opening
  marker, and \<^verbatim>\<open>ValueError\<close> is its only failure. When the opening marker occurs and the
  closing one does not, the result is the text from the first occurrence of the opening
  marker to the end of the input, with the XML declarations removed and the surrounding
  whitespace stripped.
\<close>

theorem sanitizer_contract:
  "(clean_and_extract_xml t = Inl ValueError \<longleftrightarrow> \<not> occurs_ci START_TAG t)
   \<and> (\<forall>e. clean_and_extract_xml t = Inl e \<longrightarrow> e = ValueError)
   \<and> (occurs_ci START_TAG t \<and> \<not> occurs_ci END_TAG t \<longrightarrow>
        (\<exists>pre rest.
           t = pre @ rest \<and> ci_prefix START_TAG rest
           \<and> (\<forall>pre' mid post.
                 t = pre' @ mid @ post \<and> map lower_char mid = map lower_char START_TAG
                 \<longrightarrow> length pre \<le> length pre')
           \<and> clean_and_extract_xml t = Inr (strip (remove_xml_decl rest))))"
proof (intro conjI allI impI)
  show "clean_and_extract_xml t = Inl ValueError \<longleftrightarrow> \<not> occurs_ci START_TAG t"
    by (auto simp: occurs_ci_search clean_and_extract_xml_def Let_def split: option.splits)
next
  fix e assume "clean_and_extract_xml t = Inl e"
  then show "e = ValueError"
    by (auto simp: clean_and_extract_xml_def Let_def split: option.splits)
next
  assume a: "occurs_ci START_TAG t \<and> \<not> occurs_ci END_TAG t"
  then obtain i where i: "re_search START_TAG t = Some i" and e: "re_search END_TAG t = None"
    by (auto simp: occurs_ci_search)
  from re_search_Some[OF i] have le: "i \<le> length t" and p: "ci_prefix START_TAG (drop i t)"
    and first: "\<forall>j<i. \<not> ci_prefix START_TAG (drop j t)" by auto
  have 1: "t = take i t @ drop i t" by simp
  have 2: "length (take i t) \<le> length pre'"
    if "t = pre' @ mid @ post \<and> map lower_char mid = map lower_char START_TAG"
    for pre' mid post
  proof (rule ccontr)
    assume "\<not> length (take i t) \<le> length pre'"
    with le have "length pre' < i" by simp
    with first have "\<not> ci_prefix START_TAG (drop (length pre') t)" by blast
    moreover from that have "ci_prefix START_TAG (drop (length pre') t)"
      using split_at_index by blast
    ultimately show False by contradiction
  qed
  have 3: "clean_and_extract_xml t = Inr (strip (remove_xml_decl (drop i t)))"
    using i e by (simp add: clean_and_extract_xml_def)
  from 1 p 2 3 show "\<exists>pre rest.
           t = pre @ rest \<and> ci_prefix START_TAG rest
           \<and> (\<forall>pre' mid post.
                 t = pre' @ mid @ post \<and> map lower_char mid = map lower_char START_TAG
                 \<longrightarrow> length pre \<le> length pre')
           \<and> clean_and_extract_xml t = Inr (strip (remove_xml_decl rest))"
    by blast
qed

lemma no_filing_search: "re_search START_TAG no_filing = None"
  by code_simp

lemma unclosed_filing_search:
  "re_search START_TAG unclosed_filing \<noteq> None" "re_search END_TAG unclosed_filing = None"
  by code_simp+

lemma unclosed_filing_clean:
  "clean_and_extract_xml unclosed_filing = Inr ''<OwnershipDocument><a/>''"
  by code_simp

theorem sanitizer_contract_witness:
  "\<not> occurs_ci START_TAG no_filing
   \<and> clean_and_extract_xml no_filing = Inl ValueError
   \<and> occurs_ci START_TAG unclosed_filing \<and> \<not> occurs_ci END_TAG unclosed_filing
   \<and> (\<exists>pre rest. unclosed_filing = pre @ rest \<and> ci_prefix START_TAG rest
         \<and> clean_and_extract_xml unclosed_filing = Inr (strip (remove_xml_decl rest)))
   \<and> clean_and_extract_xml unclosed_filing = Inr ''<OwnershipDocument><a/>''"
proof -
  have a: "\<not> occurs_ci START_TAG no_filing"
    by (simp add: occurs_ci_search no_filing_search)
  have b: "occurs_ci START_TAG unclosed_filing \<and> \<not> occurs_ci END_TAG unclosed_filing"
    by (simp add: occurs_ci_search unclosed_filing_search)
  from sanitizer_contract[of no_filing] a
  have c: "clean_and_extract_xml no_filing = Inl ValueError" by blast
  from sanitizer_contract[of unclosed_filing] b
  have d: "\<exists>pre rest. unclosed_filing = pre @ rest \<and> ci_prefix START_TAG rest
         \<and> clean_and_extract_xml unclosed_filing = Inr (strip (remove_xml_decl rest))"
    by blast
  from a b c d unclosed_filing_clean show ?thesis by blast
qed

section \<open>Theorems: the metadata scan\<close>

lemma endswith_exclusive:
  assumes "endswith s a" and "\<not> suffix a b" and "\<not> suffix b a"
  shows "\<not> endswith s b"
proof
  assume "endswith s b"
  with assms(1) have "suffix a s" "suffix b s" by (simp_all add: endswith_def)
  then have "suffix a b \<or> suffix b a" using suffix_same_cases by blast
  with assms(2,3) show False by simp
qed

lemma tag_suffixes_exclusive:
  "endswith s ''issuerTradingSymbol'' \<Longrightarrow> \<not> endswith s ''issuerName''"
  "endswith s ''rptOwnerName'' \<Longrightarrow> \<not> endswith s ''issuerName''"
  "endswith s ''rptOwnerName'' \<Longrightarrow> \<not> endswith s ''issuerTradingSymbol''"
  "endswith s ''rptOwnerTitle'' \<Longrightarrow> \<not> endswith s ''issuerName''"
  "endswith s ''rptOwnerTitle'' \<Longrightarrow> \<not> endswith s ''issuerTradingSymbol''"
  "endswith s ''rptOwnerTitle'' \<Longrightarrow> \<not> endswith s ''rptOwnerName''"
  by (erule endswith_exclusive; simp add: suffix_to_prefix)+

lemma metadata_step_fields:
  "issuer_name (metadata_step fo m e) =
     (if endswith (tag e) ''issuerName'' \<and> has_text e then strip (text_str e)
      else issuer_name m)"
  "issuer_ticker (metadata_step fo m e) =
     (if endswith (tag e) ''issuerTradingSymbol'' \<and> has_text e then str_upper fo (strip (text_str e))
      else issuer_ticker m)"
  "filer_name (metadata_step fo m e) =
     (if endswith (tag e) ''rptOwnerName'' \<and> has_text e then strip (text_str e)
      else filer_name m)"
  "filer_relationship (metadata_step fo m e) =
     (if endswith (tag e) ''rptOwnerTitle'' \<and> has_text e then strip (text_str e)
      else filer_relationship m)"
  by (auto simp: metadata_step_def tag_suffixes_exclusive)

lemma foldl_last_match:
  assumes "\<And>m e. fld (step m e) = (if P e then g e else fld m)"
  shows "fld (foldl step m es) =
           (case rev (filter P es) of [] \<Rightarrow> fld m | e # _ \<Rightarrow> g e)"
  by (induction es rule: rev_induct) (simp_all add: assms)


lemma scan_metadata_fields:
  "issuer_name (scan_metadata fo root) =
     (case last_match ''issuerName'' root of
        None \<Rightarrow> ''UNKNOWN'' | Some e \<Rightarrow> strip (text_str e))"
  "issuer_ticker (scan_metadata fo root) =
     (case last_match ''issuerTradingSymbol'' root of
        None \<Rightarrow> ''N/A'' | Some e \<Rightarrow> str_upper fo (strip (text_str e)))"
  "filer_name (scan_metadata fo root) =
     (case last_match ''rptOwnerName'' root of
        None \<Rightarrow> ''UNKNOWN'' | Some e \<Rightarrow> strip (text_str e))"
  "filer_relationship (scan_metadata fo root) =
     (case last_match ''rptOwnerTitle'' root of
        None \<Rightarrow> ''N/A'' | Some e \<Rightarrow> strip (text_str e))"
proof -
  let ?es = "iter root" and ?m = initial_metadata
  have "issuer_name (foldl (metadata_step fo) ?m ?es) =
          (case rev (filter (\<lambda>e. endswith (tag e) ''issuerName'' \<and> has_text e) ?es) of
             [] \<Rightarrow> issuer_name ?m | e # _ \<Rightarrow> strip (text_str e))"
    by (rule foldl_last_match) (rule metadata_step_fields(1))
  then show "issuer_name (scan_metadata fo root) =
     (case last_match ''issuerName'' root of
        None \<Rightarrow> ''UNKNOWN'' | Some e \<Rightarrow> strip (text_str e))"
    by (simp add: scan_metadata_def last_match_def initial_metadata_def split: list.splits)
  have "issuer_ticker (foldl (metadata_step fo) ?m ?es) =
          (case rev (filter (\<lambda>e. endswith (tag e) ''issuerTradingSymbol'' \<and> has_text e) ?es) of
             [] \<Rightarrow> issuer_ticker ?m | e # _ \<Rightarrow> str_upper fo (strip (text_str e)))"
    by (rule foldl_last_match) (rule metadata_step_fields(2))
  then show "issuer_ticker (scan_metadata fo root) =
     (case last_match ''issuerTradingSymbol'' root of
        None \<Rightarrow> ''N/A'' | Some e \<Rightarrow> str_upper fo (strip (text_str e)))"
    by (simp add: scan_metadata_def last_match_def initial_metadata_def split: list.splits)
  have "filer_name (foldl (metadata_step fo) ?m ?es) =
          (case rev (filter (\<lambda>e. endswith (tag e) ''rptOwnerName'' \<and> has_text e) ?es) of
             [] \<Rightarrow> filer_name ?m | e # _ \<Rightarrow> strip (text_str e))"
    by (rule foldl_last_match) (rule metadata_step_fields(3))
  then show "filer_name (scan_metadata fo root) =
     (case last_match ''rptOwnerName'' root of
        None \<Rightarrow> ''UNKNOWN'' | Some e \<Rightarrow> strip (text_str e))"
    by (simp add: scan_metadata_def last_match_def initial_metadata_def split: list.splits)
  have "filer_relationship (foldl (metadata_step fo) ?m ?es) =
          (case rev (filter (\<lambda>e. endswith (tag e) ''rptOwnerTitle'' \<and> has_text e) ?es) of
             [] \<Rightarrow> filer_relationship ?m | e # _ \<Rightarrow> strip (text_str e))"
    by (rule foldl_last_match) (rule metadata_step_fields(4))
  then show "filer_relationship (scan_metadata fo root) =
     (case last_match ''rptOwnerTitle'' root of
        None \<Rightarrow> ''N/A'' | Some e \<Rightarrow> strip (text_str e))"
    by (simp add: scan_metadata_def last_match_def initial_metadata_def split: list.splits)
qed

lemma extract_metadata_fields:
  assumes "extract_metadata fo root = Inr m"
  shows "issuer_name m = issuer_name (scan_metadata fo root)"
    and "issuer_ticker m = issuer_ticker (scan_metadata fo root)"
    and "filer_name m = filer_name (scan_metadata fo root)"
    and "filer_relationship (scan_metadata fo root) \<noteq> ''N/A'' \<and> filer_relationship (scan_metadata fo root) \<noteq> []
           \<Longrightarrow> filer_relationship m = filer_relationship (scan_metadata fo root)"
    and "filer_relationship (scan_metadata fo root) = ''N/A'' \<or> filer_relationship (scan_metadata fo root) = []
           \<Longrightarrow> relationship_from_flags root = Inr (filer_relationship m)"
  using assms
  by (auto simp: extract_metadata_def Let_def split: if_splits sum.splits)

text \<open>
  C8, as the code has it. The loop over the document assigns at every matching element
  and never stops, so each field holds the stripped text of the last element, in
  document order, whose tag ends with the field's suffix and whose text is not empty
  (the ticker in upper case), or its default when there is none. The metadata the trades
  receive keep these values; the relationship is the title so found unless that is
  empty or \<^verbatim>\<open>N/A\<close>, and in that case it is what the boolean flags of the document
  give.
\<close>

theorem metadata_last_occurrence:
  "issuer_name (scan_metadata fo root) =
     (case last_match ''issuerName'' root of
        None \<Rightarrow> ''UNKNOWN'' | Some e \<Rightarrow> strip (text_str e))
   \<and> issuer_ticker (scan_metadata fo root) =
     (case last_match ''issuerTradingSymbol'' root of
        None \<Rightarrow> ''N/A'' | Some e \<Rightarrow> str_upper fo (strip (text_str e)))
   \<and> filer_name (scan_metadata fo root) =
     (case last_match ''rptOwnerName'' root of
        None \<Rightarrow> ''UNKNOWN'' | Some e \<Rightarrow> strip (text_str e))
   \<and> filer_relationship (scan_metadata fo root) =
     (case last_match ''rptOwnerTitle'' root of
        None \<Rightarrow> ''N/A'' | Some e \<Rightarrow> strip (text_str e))
   \<and> (extract_metadata fo root = Inr m \<longrightarrow>
        issuer_name m = issuer_name (scan_metadata fo root)
        \<and> issuer_ticker m = issuer_ticker (scan_metadata fo root)
        \<and> filer_name m = filer_name (scan_metadata fo root)
        \<and> (filer_relationship (scan_metadata fo root) \<noteq> ''N/A''
             \<and> filer_relationship (scan_metadata fo root) \<noteq> []
             \<longrightarrow> filer_relationship m = filer_relationship (scan_metadata fo root))
        \<and> (filer_relationship (scan_metadata fo root) = ''N/A''
             \<or> filer_relationship (scan_metadata fo root) = []
             \<longrightarrow> relationship_from_flags root = Inr (filer_relationship m)))"
  using scan_metadata_fields[of fo root] extract_metadata_fields[of fo root m]
  by blast

lemma whole_ops_fields:
  "float_of_str whole_ops = whole_of_str"
  "float_mul whole_ops x y = x * y"
  "float_ge whole_ops x y = (x \<ge> y)"
  "float_is_zero whole_ops x = (x = 0)"
  "float_zero whole_ops = 0"
  "MIN_TRADE_VALUE whole_ops = 1000000"
  "str_upper whole_ops = ascii_upper"
  by (simp_all add: whole_ops_def)

lemmas tree_simps = leaf_def node_def endswith_def suffix_to_prefix has_text_def text_str_def
  strip_def is_space_def ascii_upper_def ascii_upper_char_def whole_ops_fields

lemma sample_root_scan: "scan_metadata whole_ops sample_root = sample_metadata"
  by (simp add: scan_metadata_def metadata_step_def initial_metadata_def sample_metadata_def
        sample_root_def tx_purchase_def tx_exercise_def tx_no_shares_def tree_simps)

lemma sample_root_metadata: "extract_metadata whole_ops sample_root = Inr sample_metadata"
  by (simp add: extract_metadata_def sample_root_scan) (simp add: sample_metadata_def)

lemma sample_root_last_owner:
  "last_match ''rptOwnerName'' sample_root = Some (leaf ''rptOwnerName'' ''DOE JOHN'')"
  by (simp add: last_match_def
        sample_root_def tx_purchase_def tx_exercise_def tx_no_shares_def tree_simps)

lemma sample_root_first_owner:
  "first_match ''rptOwnerName'' sample_root = Some (leaf ''rptOwnerName'' ''ROE JANE'')"
  by (simp add: first_match_def
        sample_root_def tx_purchase_def tx_exercise_def tx_no_shares_def tree_simps)

lemma flags_root_scan:
  "scan_metadata whole_ops flags_root
     = \<lparr>issuer_name = ''UNKNOWN'', issuer_ticker = ''N/A'',
        filer_name = ''DOE JOHN'', filer_relationship = ''N/A''\<rparr>"
  by (simp add: scan_metadata_def metadata_step_def initial_metadata_def flags_root_def
        tree_simps)

lemma flags_root_flags: "relationship_from_flags flags_root = Inr ''Director, 10% Owner''"
  by (simp add: relationship_from_flags_def flag_is_one_def find_path_def descendants_def
        flags_root_def leaf_def node_def strip_def is_space_def)

lemma flags_root_metadata: "extract_metadata whole_ops flags_root = Inr flags_metadata"
  by (simp add: extract_metadata_def flags_root_scan flags_root_flags flags_metadata_def)

theorem metadata_last_occurrence_witness:
  "extract_metadata whole_ops sample_root = Inr sample_metadata
   \<and> last_match ''rptOwnerName'' sample_root = Some (leaf ''rptOwnerName'' ''DOE JOHN'')
   \<and> filer_name sample_metadata = ''DOE JOHN''
   \<and> filer_relationship (scan_metadata whole_ops sample_root) \<noteq> ''N/A''
   \<and> filer_relationship (scan_metadata whole_ops sample_root) \<noteq> []
   \<and> filer_relationship sample_metadata = filer_relationship (scan_metadata whole_ops sample_root)
   \<and> extract_metadata whole_ops flags_root = Inr flags_metadata
   \<and> filer_relationship (scan_metadata whole_ops flags_root) = ''N/A''
   \<and> relationship_from_flags flags_root = Inr (filer_relationship flags_metadata)
   \<and> filer_relationship flags_metadata = ''Director, 10% Owner''"
proof -
  note inst = metadata_last_occurrence
    [where fo = whole_ops and root = sample_root and m = sample_metadata]
  from inst sample_root_metadata
  have "filer_name sample_metadata =
     (case last_match ''rptOwnerName'' sample_root of
        None \<Rightarrow> ''UNKNOWN'' | Some e \<Rightarrow> strip (text_str e))"
    by simp
  then have 1: "filer_name sample_metadata = ''DOE JOHN''"
    by (simp add: sample_root_last_owner) (simp add: tree_simps)
  have 2: "filer_relationship (scan_metadata whole_ops sample_root) \<noteq> ''N/A''
            \<and> filer_relationship (scan_metadata whole_ops sample_root) \<noteq> []"
    by (simp add: sample_root_scan sample_metadata_def)
  from inst sample_root_metadata 2
  have 3: "filer_relationship sample_metadata = filer_relationship (scan_metadata whole_ops sample_root)"
    by blast
  have 4: "filer_relationship (scan_metadata whole_ops flags_root) = ''N/A''"
    by (simp add: flags_root_scan)
  from metadata_last_occurrence
         [where fo = whole_ops and root = flags_root and m = flags_metadata]
       flags_root_metadata 4
  have 5: "relationship_from_flags flags_root = Inr (filer_relationship flags_metadata)"
    by blast
  have 6: "filer_relationship flags_metadata = ''Director, 10% Owner''"
    by (simp add: flags_metadata_def)
  from sample_root_metadata sample_root_last_owner 1 2 3 flags_root_metadata 4 5 6
  show ?thesis by blast
qed

text \<open>
  The specification takes the first occurrence. In the sample filing the first
  reporting owner is ROE JANE and the metadata name the second one, DOE JOHN.
\<close>

theorem metadata_first_occurrence_counterexample:
  "first_match ''rptOwnerName'' sample_root = Some (leaf ''rptOwnerName'' ''ROE JANE'')
   \<and> extract_metadata whole_ops sample_root = Inr sample_metadata
   \<and> filer_name sample_metadata = ''DOE JOHN''"
  using sample_root_first_owner sample_root_metadata
  by (simp add: sample_metadata_def)

section \<open>Theorems: the filing parser\<close>

lemma extract_value_None:
  "extract_value_via_iteration fo parent target = None \<longleftrightarrow>
     find (\<lambda>element. endswith (tag element) target) (iter parent) = None"
  by (simp add: extract_value_via_iteration_def Let_def split: option.splits)

lemma extract_value_present:
  assumes "find (\<lambda>element. endswith (tag element) target) (iter parent) = Some container"
  shows "extract_value_via_iteration fo parent target =
           (case find (\<lambda>element. endswith (tag element) ''value'' \<and> has_text element)
                   (iter container) of
              None \<Rightarrow> Some (float_zero fo)
            | Some element \<Rightarrow>
                if strip (text_str element) = [] then Some (float_zero fo)
                else (case float_of_str fo (strip (remove_commas (strip (text_str element)))) of
                        None \<Rightarrow> Some (float_zero fo)
                      | Some x \<Rightarrow> Some x))"
  using assms
  by (simp add: extract_value_via_iteration_def Let_def split: option.splits)

lemma py_mul_Inr:
  "py_mul fo a b = Inr v \<longleftrightarrow> (\<exists>x y. a = Some x \<and> b = Some y \<and> v = float_mul fo x y)"
  by (cases a; cases b) auto

lemma process_transaction_Appended:
  assumes "process_transaction fo m tx = Appended t"
  shows "\<exists>s p.
           fst (scan_code_date fo tx) \<in> set TARGET_CODES
         \<and> extract_value_via_iteration fo tx ''transactionShares'' = Some s
         \<and> \<not> float_is_zero fo s
         \<and> extract_value_via_iteration fo tx ''transactionPricePerShare'' = Some p
         \<and> (fst (scan_code_date fo tx) \<in> set VALUE_CODES
               \<longrightarrow> float_ge fo (float_mul fo s p) (MIN_TRADE_VALUE fo))
         \<and> t = [(''date'', PStr (snd (scan_code_date fo tx))),
                 (''code'', PStr (fst (scan_code_date fo tx))),
                 (''ticker'', PStr (issuer_ticker m)),
                 (''shares'', PNum s),
                 (''price'', PNum p),
                 (''value'', PNum (float_mul fo s p)),
                 (''company_name'', PStr (issuer_name m)),
                 (''filer'', PStr (filer_name m)),
                 (''person_title'', PStr (filer_relationship m)),
                 (''is_value_trade'', PBool (fst (scan_code_date fo tx) \<in> set VALUE_CODES))]"
proof -
  let ?shares = "extract_value_via_iteration fo tx ''transactionShares''"
  let ?price = "extract_value_via_iteration fo tx ''transactionPricePerShare''"
  from assms have c: "fst (scan_code_date fo tx) \<in> set TARGET_CODES"
    by (auto simp: process_transaction_def Let_def split: if_splits)
  from assms c have z: "\<not> py_eq_zero fo ?shares"
    by (auto simp: process_transaction_def Let_def split: if_splits)
  from assms c z obtain v where v: "py_mul fo ?shares ?price = Inr v"
    by (auto simp: process_transaction_def Let_def split: sum.splits)
  then obtain s p where sp: "?shares = Some s" "?price = Some p" "v = float_mul fo s p"
    by (auto simp: py_mul_Inr)
  from z sp have nz: "\<not> float_is_zero fo s" by (simp add: py_eq_zero_def)
  from assms c z v sp
  have "(fst (scan_code_date fo tx) \<in> set VALUE_CODES
               \<longrightarrow> float_ge fo (float_mul fo s p) (MIN_TRADE_VALUE fo))"
    by (auto simp: process_transaction_def Let_def split: if_splits)
  moreover from assms c z v sp
  have "t = [(''date'', PStr (snd (scan_code_date fo tx))),
                 (''code'', PStr (fst (scan_code_date fo tx))),
                 (''ticker'', PStr (issuer_ticker m)),
                 (''shares'', PNum s),
                 (''price'', PNum p),
                 (''value'', PNum (float_mul fo s p)),
                 (''company_name'', PStr (issuer_name m)),
                 (''filer'', PStr (filer_name m)),
                 (''person_title'', PStr (filer_relationship m)),
                 (''is_value_trade'', PBool (fst (scan_code_date fo tx) \<in> set VALUE_CODES))]"
    by (auto simp: process_transaction_def Let_def opt_val_def split: if_splits)
  ultimately show ?thesis using c sp nz by blast
qed

lemma process_transactions_all:
  assumes "\<And>tx t. process_transaction fo m tx = Appended t \<Longrightarrow> P t"
  shows "(\<forall>t \<in> set acc. P t) \<Longrightarrow> \<forall>t \<in> set (fst (process_transactions fo m acc txs)). P t"
proof (induction txs arbitrary: acc)
  case Nil
  then show ?case by simp
next
  case (Cons tx txs)
  show ?case
  proof (cases "process_transaction fo m tx")
    case Skipped
    with Cons show ?thesis by simp
  next
    case (Appended t)
    with assms have "P t" by blast
    with Cons.prems have "\<forall>t \<in> set (acc @ [t]). P t" by simp
    from Cons.IH[OF this] Appended show ?thesis by simp
  next
    case (Raised e)
    with Cons.prems show ?thesis by simp
  qed
qed

lemma process_transactions_keeps:
  "set acc \<subseteq> set (fst (process_transactions fo m acc txs))"
proof (induction txs arbitrary: acc)
  case Nil
  show ?case by simp
next
  case (Cons tx txs)
  show ?case
  proof (cases "process_transaction fo m tx")
    case Skipped
    with Cons show ?thesis by simp
  next
    case (Appended t)
    from Cons.IH[of "acc @ [t]"] Appended show ?thesis by auto
  next
    case (Raised e)
    then show ?thesis by simp
  qed
qed

lemma process_transactions_Raised:
  "process_transactions fo m acc txs = (ts, Some e) \<Longrightarrow>
     \<exists>before tx rest. txs = before @ tx # rest
       \<and> process_transaction fo m tx = Raised e
       \<and> process_transactions fo m acc before = (ts, None)"
proof (induction txs arbitrary: acc)
  case Nil
  then show ?case by simp
next
  case (Cons tx txs)
  show ?case
  proof (cases "process_transaction fo m tx")
    case Skipped
    with Cons.prems have "process_transactions fo m acc txs = (ts, Some e)" by simp
    from Cons.IH[OF this] obtain before tx' rest where
      b: "txs = before @ tx' # rest" "process_transaction fo m tx' = Raised e"
         "process_transactions fo m acc before = (ts, None)" by blast
    from b(1) have "tx # txs = (tx # before) @ tx' # rest" by simp
    moreover from b(3) Skipped have "process_transactions fo m acc (tx # before) = (ts, None)"
      by simp
    ultimately show ?thesis using b(2) by blast
  next
    case (Appended t)
    with Cons.prems have "process_transactions fo m (acc @ [t]) txs = (ts, Some e)" by simp
    from Cons.IH[OF this] obtain before tx' rest where
      b: "txs = before @ tx' # rest" "process_transaction fo m tx' = Raised e"
         "process_transactions fo m (acc @ [t]) before = (ts, None)" by blast
    from b(1) have "tx # txs = (tx # before) @ tx' # rest" by simp
    moreover from b(3) Appended have "process_transactions fo m acc (tx # before) = (ts, None)"
      by simp
    ultimately show ?thesis using b(2) by blast
  next
    case (Raised e')
    with Cons.prems have "ts = acc" "e' = e" by simp_all
    with Raised have "tx # txs = [] @ tx # txs" "process_transaction fo m tx = Raised e"
      "process_transactions fo m acc [] = (ts, None)" by simp_all
    then show ?thesis by blast
  qed
qed

lemma parse_form4_url_cases:
  "parse_form4_url fo http_get fromstring url = []
   \<or> (\<exists>m root. parse_form4_url fo http_get fromstring url
                  = fst (process_transactions fo m [] (transactions root)))"
  by (auto simp: parse_form4_url_def parse_form4_url_run_def parse_body_def
           split: option.splits sum.splits)

lemma parse_form4_url_all:
  assumes "\<And>m tx t. process_transaction fo m tx = Appended t \<Longrightarrow> P t"
  shows "\<forall>t \<in> set (parse_form4_url fo http_get fromstring url). P t"
proof -
  from parse_form4_url_cases[of fo http_get fromstring url] show ?thesis
  proof
    assume "parse_form4_url fo http_get fromstring url = []"
    then show ?thesis by simp
  next
    assume "\<exists>m root. parse_form4_url fo http_get fromstring url
                  = fst (process_transactions fo m [] (transactions root))"
    then obtain m root where
      "parse_form4_url fo http_get fromstring url
         = fst (process_transactions fo m [] (transactions root))" by blast
    moreover have "\<forall>t \<in> set (fst (process_transactions fo m [] (transactions root))). P t"
      by (rule process_transactions_all) (auto intro: assms)
    ultimately show ?thesis by simp
  qed
qed


text \<open>
  C4. Every trade that \<^verbatim>\<open>parse_form4_url\<close> returns has a code among P, S, M, X and V,
  holds floats as shares and price, holds as value the product of the two that the code
  computed, and is flagged as a value trade exactly when its code is P or S.
\<close>

theorem trade_postcondition:
  "\<forall>t \<in> set (parse_form4_url fo http_get fromstring url).
     \<exists>c s p. dict_get t ''code'' = PStr c
       \<and> c \<in> {''P'', ''S'', ''M'', ''X'', ''V''}
       \<and> dict_get t ''shares'' = PNum s
       \<and> dict_get t ''price'' = PNum p
       \<and> dict_get t ''value'' = PNum (float_mul fo s p)
       \<and> dict_get t ''is_value_trade'' = PBool (c \<in> {''P'', ''S''})"
proof (rule parse_form4_url_all)
  fix m tx and t :: "'a trade"
  assume "process_transaction fo m tx = Appended t"
  from process_transaction_Appended[OF this]
  show "\<exists>c s p. dict_get t ''code'' = PStr c
       \<and> c \<in> {''P'', ''S'', ''M'', ''X'', ''V''}
       \<and> dict_get t ''shares'' = PNum s
       \<and> dict_get t ''price'' = PNum p
       \<and> dict_get t ''value'' = PNum (float_mul fo s p)
       \<and> dict_get t ''is_value_trade'' = PBool (c \<in> {''P'', ''S''})"
    by (auto simp: dict_get_def TARGET_CODES_def VALUE_CODES_def)
qed

text \<open>
  C5. A transaction with a target code whose extracted share amount equals 0.0 is
  skipped: the loop goes on as if it were not there. Every returned trade flagged as a
  value trade has a value of at least \<^verbatim>\<open>MIN_TRADE_VALUE\<close>. A transaction with code M, X
  or V whose share amount is a non-zero float and whose price is a float is appended
  whatever its value is, and stays in the returned list.
\<close>

theorem transaction_filtering:
  "(fst (scan_code_date fo tx) \<in> set TARGET_CODES
      \<and> extract_value_via_iteration fo tx ''transactionShares'' = Some s
      \<and> float_is_zero fo s
    \<longrightarrow> process_transaction fo m tx = Skipped
        \<and> process_transactions fo m acc (tx # rest) = process_transactions fo m acc rest)
   \<and> (\<forall>t \<in> set (parse_form4_url fo http_get fromstring url).
         dict_get t ''is_value_trade'' = PBool True
         \<longrightarrow> (\<exists>v. dict_get t ''value'' = PNum v \<and> float_ge fo v (MIN_TRADE_VALUE fo)))
   \<and> (fst (scan_code_date fo tx) \<in> {''M'', ''X'', ''V''}
      \<and> extract_value_via_iteration fo tx ''transactionShares'' = Some s
      \<and> \<not> float_is_zero fo s
      \<and> extract_value_via_iteration fo tx ''transactionPricePerShare'' = Some p
    \<longrightarrow> (\<exists>t. process_transaction fo m tx = Appended t
             \<and> dict_get t ''value'' = PNum (float_mul fo s p)
             \<and> dict_get t ''is_value_trade'' = PBool False
             \<and> t \<in> set (fst (process_transactions fo m acc (tx # rest)))))"
proof (intro conjI impI)
  assume a: "fst (scan_code_date fo tx) \<in> set TARGET_CODES
      \<and> extract_value_via_iteration fo tx ''transactionShares'' = Some s
      \<and> float_is_zero fo s"
  then show sk: "process_transaction fo m tx = Skipped"
    by (simp add: process_transaction_def py_eq_zero_def)
  then show "process_transactions fo m acc (tx # rest) = process_transactions fo m acc rest"
    by simp
next
  show "\<forall>t \<in> set (parse_form4_url fo http_get fromstring url).
         dict_get t ''is_value_trade'' = PBool True
         \<longrightarrow> (\<exists>v. dict_get t ''value'' = PNum v \<and> float_ge fo v (MIN_TRADE_VALUE fo))"
  proof (rule parse_form4_url_all)
    fix m' tx' and t :: "'a trade"
    assume "process_transaction fo m' tx' = Appended t"
    from process_transaction_Appended[OF this]
    show "dict_get t ''is_value_trade'' = PBool True
         \<longrightarrow> (\<exists>v. dict_get t ''value'' = PNum v \<and> float_ge fo v (MIN_TRADE_VALUE fo))"
      by (auto simp: dict_get_def)
  qed
next
  assume a: "fst (scan_code_date fo tx) \<in> {''M'', ''X'', ''V''}
      \<and> extract_value_via_iteration fo tx ''transactionShares'' = Some s
      \<and> \<not> float_is_zero fo s
      \<and> extract_value_via_iteration fo tx ''transactionPricePerShare'' = Some p"
  let ?t = "[(''date'', PStr (snd (scan_code_date fo tx))),
             (''code'', PStr (fst (scan_code_date fo tx))),
             (''ticker'', PStr (issuer_ticker m)),
             (''shares'', PNum s),
             (''price'', PNum p),
             (''value'', PNum (float_mul fo s p)),
             (''company_name'', PStr (issuer_name m)),
             (''filer'', PStr (filer_name m)),
             (''person_title'', PStr (filer_relationship m)),
             (''is_value_trade'', PBool False)]"
  from a have tc: "fst (scan_code_date fo tx) \<in> set TARGET_CODES"
    and vc: "fst (scan_code_date fo tx) \<notin> set VALUE_CODES"
    by (auto simp: TARGET_CODES_def VALUE_CODES_def)
  from a tc vc have 1: "process_transaction fo m tx = Appended ?t"
    by (simp add: process_transaction_def py_eq_zero_def opt_val_def Let_def)
  have 2: "dict_get ?t ''value'' = PNum (float_mul fo s p)"
    and 3: "dict_get ?t ''is_value_trade'' = PBool False"
    by (simp_all add: dict_get_def)
  from 1 have "process_transactions fo m acc (tx # rest)
                 = process_transactions fo m (acc @ [?t]) rest" by simp
  with process_transactions_keeps[of "acc @ [?t]" fo m rest]
  have 4: "?t \<in> set (fst (process_transactions fo m acc (tx # rest)))" by auto
  from 1 2 3 4
  show "\<exists>t. process_transaction fo m tx = Appended t
             \<and> dict_get t ''value'' = PNum (float_mul fo s p)
             \<and> dict_get t ''is_value_trade'' = PBool False
             \<and> t \<in> set (fst (process_transactions fo m acc (tx # rest)))"
    by blast
qed

section \<open>Theorems: the filing parser on the sample filing\<close>

lemmas sample_tx_defs = tx_purchase_def tx_exercise_def tx_no_shares_def tx_zero_shares_def

lemma sample_codes:
  "scan_code_date whole_ops tx_purchase = (''P'', ''2024-01-02'')"
  "scan_code_date whole_ops tx_exercise = (''M'', ''2024-01-03'')"
  "scan_code_date whole_ops tx_no_shares = (''M'', ''N/A'')"
  "scan_code_date whole_ops tx_zero_shares = (''P'', ''N/A'')"
  by (simp_all add: scan_code_date_def code_date_step_def find_path_def descendants_def
        sample_tx_defs tree_simps)

lemma sample_amounts:
  "extract_value_via_iteration whole_ops tx_purchase ''transactionShares'' = Some 1000"
  "extract_value_via_iteration whole_ops tx_purchase ''transactionPricePerShare'' = Some 2000"
  "extract_value_via_iteration whole_ops tx_exercise ''transactionShares'' = Some 500"
  "extract_value_via_iteration whole_ops tx_exercise ''transactionPricePerShare'' = Some 0"
  "extract_value_via_iteration whole_ops tx_no_shares ''transactionPricePerShare'' = None"
  "extract_value_via_iteration whole_ops tx_zero_shares ''transactionShares'' = Some 0"
  by (simp_all add: extract_value_via_iteration_def remove_commas_def
        whole_of_str_def digit_val_def sample_tx_defs tree_simps)


text \<open>
  C1. The specification promises 0.0 when the container element is absent. The function returns
  \<^verbatim>\<open>None\<close> there (line 115), while its other fall-through paths return 0.0 and its
  caller compares the result with 0.0 and multiplies it: on the transaction of the
  sample filing that reports no share amount the result is \<^verbatim>\<open>None\<close>, not 0.0, and the
  multiplication that follows raises.
\<close>

theorem extract_value_container_absent:
  "extract_value_via_iteration whole_ops tx_no_shares ''transactionShares'' = None
   \<and> extract_value_via_iteration whole_ops tx_no_shares ''transactionShares''
       \<noteq> Some (float_zero whole_ops)
   \<and> process_transaction whole_ops sample_metadata tx_no_shares = Raised TypeError"
proof -
  have 1: "extract_value_via_iteration whole_ops tx_no_shares ''transactionShares'' = None"
    by (simp add: extract_value_via_iteration_def sample_tx_defs tree_simps)
  then have "process_transaction whole_ops sample_metadata tx_no_shares = Raised TypeError"
    by (simp add: process_transaction_def sample_codes sample_amounts TARGET_CODES_def
          py_eq_zero_def)
  with 1 show ?thesis by simp
qed

lemma sample_no_shares:
  "process_transaction whole_ops sample_metadata tx_no_shares = Raised TypeError"
proof -
  have "extract_value_via_iteration whole_ops tx_no_shares ''transactionShares'' = None"
    by (simp add: extract_value_via_iteration_def sample_tx_defs tree_simps)
  then show ?thesis
    by (simp add: process_transaction_def sample_codes sample_amounts TARGET_CODES_def
          py_eq_zero_def)
qed

lemma sample_purchase:
  "process_transaction whole_ops sample_metadata tx_purchase = Appended trade_a"
  by (simp add: process_transaction_def sample_codes sample_amounts TARGET_CODES_def
        VALUE_CODES_def py_eq_zero_def opt_val_def whole_ops_fields sample_metadata_def
        trade_a_def)

lemma sample_exercise:
  "process_transaction whole_ops sample_metadata tx_exercise = Appended trade_b"
  by (simp add: process_transaction_def sample_codes sample_amounts TARGET_CODES_def
        VALUE_CODES_def py_eq_zero_def opt_val_def whole_ops_fields sample_metadata_def
        trade_b_def)

lemma sample_transactions:
  "transactions sample_root = [tx_purchase, tx_exercise, tx_no_shares]"
  by (simp add: transactions_def findall_def descendants_def py_or_def NAMESPACE_def
        sample_root_def sample_tx_defs leaf_def node_def)

lemma sample_loop:
  "process_transactions whole_ops sample_metadata [] (transactions sample_root)
     = ([trade_a, trade_b], Some TypeError)"
  by (simp add: sample_transactions sample_purchase sample_exercise sample_no_shares)

lemma sample_text_clean: "\<exists>c. clean_and_extract_xml sample_text = Inr c"
proof -
  have "sample_text = ''<XML>'' @ START_TAG @ sample_body
          \<and> map lower_char START_TAG = map lower_char START_TAG"
    by (simp add: sample_text_def)
  then have "occurs_ci START_TAG sample_text" unfolding occurs_ci_def by blast
  then have "re_search START_TAG sample_text \<noteq> None" by (simp add: occurs_ci_search)
  then show ?thesis
    by (auto simp: clean_and_extract_xml_def Let_def split: option.splits)
qed

lemma sample_run:
  "parse_form4_url_run whole_ops sample_http_get sample_fromstring sample_url
     = ([trade_a, trade_b], Some TypeError)"
proof -
  from sample_text_clean obtain c where c: "clean_and_extract_xml sample_text = Inr c" ..
  then have "sample_fromstring c = Some sample_root" by (simp add: sample_fromstring_def)
  with c show ?thesis
    by (simp add: parse_form4_url_run_def parse_body_def sample_http_get_def
          sample_root_metadata sample_loop)
qed

lemma sample_result:
  "parse_form4_url whole_ops sample_http_get sample_fromstring sample_url = [trade_a, trade_b]"
  by (simp add: parse_form4_url_def sample_run)


theorem trade_postcondition_witness:
  "trade_a \<in> set (parse_form4_url whole_ops sample_http_get sample_fromstring sample_url)
   \<and> (\<exists>c s p. dict_get trade_a ''code'' = PStr c
         \<and> c \<in> {''P'', ''S'', ''M'', ''X'', ''V''}
         \<and> dict_get trade_a ''shares'' = PNum s
         \<and> dict_get trade_a ''price'' = PNum p
         \<and> dict_get trade_a ''value'' = PNum (float_mul whole_ops s p)
         \<and> dict_get trade_a ''is_value_trade'' = PBool (c \<in> {''P'', ''S''}))
   \<and> dict_get trade_a ''value'' = PNum 2000000"
proof -
  have h: "trade_a \<in> set (parse_form4_url whole_ops sample_http_get sample_fromstring sample_url)"
    by (simp add: sample_result)
  have v: "dict_get trade_a ''value'' = PNum 2000000"
    by (simp add: dict_get_def trade_a_def)
  from trade_postcondition[of whole_ops sample_http_get sample_fromstring sample_url] h v
  show ?thesis by blast
qed

lemma sample_zero_shares_code:
  "fst (scan_code_date whole_ops tx_zero_shares) \<in> set TARGET_CODES"
  by (simp add: sample_codes TARGET_CODES_def)

theorem transaction_filtering_witness:
  "process_transaction whole_ops sample_metadata tx_zero_shares = Skipped
   \<and> trade_a \<in> set (parse_form4_url whole_ops sample_http_get sample_fromstring sample_url)
   \<and> dict_get trade_a ''is_value_trade'' = PBool True
   \<and> (\<exists>v. dict_get trade_a ''value'' = PNum v
          \<and> float_ge whole_ops v (MIN_TRADE_VALUE whole_ops))
   \<and> (\<exists>t. process_transaction whole_ops sample_metadata tx_exercise = Appended t
          \<and> dict_get t ''value'' = PNum (float_mul whole_ops 500 0)
          \<and> dict_get t ''is_value_trade'' = PBool False
          \<and> t \<in> set (fst (process_transactions whole_ops sample_metadata []
                              (tx_exercise # [tx_no_shares]))))"
proof -
  note inst = transaction_filtering
    [where fo = whole_ops and m = sample_metadata and acc = "[]"
       and http_get = sample_http_get and fromstring = sample_fromstring and url = sample_url]
  have z: "fst (scan_code_date whole_ops tx_zero_shares) \<in> set TARGET_CODES
      \<and> extract_value_via_iteration whole_ops tx_zero_shares ''transactionShares'' = Some 0
      \<and> float_is_zero whole_ops 0"
    by (simp add: sample_zero_shares_code sample_amounts whole_ops_fields)
  from inst[of tx_zero_shares 0] z
  have 1: "process_transaction whole_ops sample_metadata tx_zero_shares = Skipped" by blast
  have h: "trade_a \<in> set (parse_form4_url whole_ops sample_http_get sample_fromstring sample_url)"
    by (simp add: sample_result)
  have f: "dict_get trade_a ''is_value_trade'' = PBool True"
    by (simp add: dict_get_def trade_a_def)
  from inst[of tx_zero_shares 0] h f
  have 2: "\<exists>v. dict_get trade_a ''value'' = PNum v
          \<and> float_ge whole_ops v (MIN_TRADE_VALUE whole_ops)" by blast
  have e: "fst (scan_code_date whole_ops tx_exercise) \<in> {''M'', ''X'', ''V''}
      \<and> extract_value_via_iteration whole_ops tx_exercise ''transactionShares'' = Some 500
      \<and> \<not> float_is_zero whole_ops 500
      \<and> extract_value_via_iteration whole_ops tx_exercise ''transactionPricePerShare'' = Some 0"
    by (simp add: sample_codes sample_amounts whole_ops_fields)
  from inst[of tx_exercise 500 "[tx_no_shares]" 0] e
  have 3: "\<exists>t. process_transaction whole_ops sample_metadata tx_exercise = Appended t
          \<and> dict_get t ''value'' = PNum (float_mul whole_ops 500 0)
          \<and> dict_get t ''is_value_trade'' = PBool False
          \<and> t \<in> set (fst (process_transactions whole_ops sample_metadata []
                              (tx_exercise # [tx_no_shares])))" by blast
  from 1 h f 2 3 show ?thesis by blast
qed

text \<open>
  C9, as the code has it. Every failure is caught and the function returns the list
  \<open>trades\<close> as it stands. A failed download, a failed sanitize step, a failed tree parse
  and a failure while the metadata are extracted all happen before the first trade is
  appended and give the empty list. A failure while a transaction is processed ends the
  loop and gives the trades collected from the transactions before it.
\<close>

theorem failure_isolation:
  "parse_form4_url fo http_get fromstring url
     = fst (parse_form4_url_run fo http_get fromstring url)
   \<and> (http_get url = None \<longrightarrow> parse_form4_url fo http_get fromstring url = [])
   \<and> (http_get url = Some xml_text \<and> clean_and_extract_xml xml_text = Inl e
        \<longrightarrow> parse_form4_url fo http_get fromstring url = [])
   \<and> (http_get url = Some xml_text \<and> clean_and_extract_xml xml_text = Inr c
        \<and> fromstring c = None
        \<longrightarrow> parse_form4_url fo http_get fromstring url = [])
   \<and> (http_get url = Some xml_text \<and> clean_and_extract_xml xml_text = Inr c
        \<and> fromstring c = Some root \<and> extract_metadata fo root = Inl e
        \<longrightarrow> parse_form4_url fo http_get fromstring url = [])
   \<and> (http_get url = Some xml_text \<and> clean_and_extract_xml xml_text = Inr c
        \<and> fromstring c = Some root \<and> extract_metadata fo root = Inr m
        \<longrightarrow> parse_form4_url_run fo http_get fromstring url
              = process_transactions fo m [] (transactions root))
   \<and> (process_transactions fo m acc txs = (ts, Some e)
        \<longrightarrow> (\<exists>before tx rest. txs = before @ tx # rest
               \<and> process_transaction fo m tx = Raised e
               \<and> process_transactions fo m acc before = (ts, None)))"
proof (intro conjI impI)
  show "parse_form4_url fo http_get fromstring url
     = fst (parse_form4_url_run fo http_get fromstring url)"
    by (simp add: parse_form4_url_def)
next
  assume "http_get url = None"
  then show "parse_form4_url fo http_get fromstring url = []"
    by (simp add: parse_form4_url_def parse_form4_url_run_def)
next
  assume "http_get url = Some xml_text \<and> clean_and_extract_xml xml_text = Inl e"
  then show "parse_form4_url fo http_get fromstring url = []"
    by (simp add: parse_form4_url_def parse_form4_url_run_def parse_body_def)
next
  assume "http_get url = Some xml_text \<and> clean_and_extract_xml xml_text = Inr c
        \<and> fromstring c = None"
  then show "parse_form4_url fo http_get fromstring url = []"
    by (simp add: parse_form4_url_def parse_form4_url_run_def parse_body_def)
next
  assume "http_get url = Some xml_text \<and> clean_and_extract_xml xml_text = Inr c
        \<and> fromstring c = Some root \<and> extract_metadata fo root = Inl e"
  then show "parse_form4_url fo http_get fromstring url = []"
    by (simp add: parse_form4_url_def parse_form4_url_run_def parse_body_def)
next
  assume "http_get url = Some xml_text \<and> clean_and_extract_xml xml_text = Inr c
        \<and> fromstring c = Some root \<and> extract_metadata fo root = Inr m"
  then show "parse_form4_url_run fo http_get fromstring url
              = process_transactions fo m [] (transactions root)"
    by (simp add: parse_form4_url_run_def parse_body_def)
next
  assume "process_transactions fo m acc txs = (ts, Some e)"
  then show "\<exists>before tx rest. txs = before @ tx # rest
               \<and> process_transaction fo m tx = Raised e
               \<and> process_transactions fo m acc before = (ts, None)"
    by (rule process_transactions_Raised)
qed

lemma no_filing_clean: "clean_and_extract_xml no_filing = Inl ValueError"
  by (simp add: clean_and_extract_xml_def no_filing_search)

lemma flag_without_text_metadata:
  "extract_metadata whole_ops flag_without_text_root = Inl AttributeError"
  by (simp add: extract_metadata_def scan_metadata_def metadata_step_def initial_metadata_def
        relationship_from_flags_def flag_is_one_def find_path_def descendants_def
        flag_without_text_root_def tree_simps)

theorem failure_isolation_witness:
  "sample_http_get missing_url = None
   \<and> parse_form4_url whole_ops sample_http_get sample_fromstring missing_url = []
   \<and> clean_and_extract_xml no_filing = Inl ValueError
   \<and> parse_form4_url whole_ops (\<lambda>url. Some no_filing) sample_fromstring sample_url = []
   \<and> parse_form4_url whole_ops sample_http_get (\<lambda>s. None) sample_url = []
   \<and> extract_metadata whole_ops flag_without_text_root = Inl AttributeError
   \<and> parse_form4_url whole_ops sample_http_get (\<lambda>s. Some flag_without_text_root) sample_url = []
   \<and> parse_form4_url_run whole_ops sample_http_get sample_fromstring sample_url
       = process_transactions whole_ops sample_metadata [] (transactions sample_root)
   \<and> process_transactions whole_ops sample_metadata [] (transactions sample_root)
       = ([trade_a, trade_b], Some TypeError)
   \<and> (\<exists>before tx rest. transactions sample_root = before @ tx # rest
         \<and> process_transaction whole_ops sample_metadata tx = Raised TypeError
         \<and> process_transactions whole_ops sample_metadata [] before
             = ([trade_a, trade_b], None))"
proof -
  have n: "sample_http_get missing_url = None"
    by (simp add: sample_http_get_def missing_url_def sample_url_def)
  from failure_isolation[of whole_ops sample_http_get sample_fromstring missing_url] n
  have 1: "parse_form4_url whole_ops sample_http_get sample_fromstring missing_url = []"
    by blast
  from failure_isolation
         [where fo = whole_ops and http_get = "\<lambda>url. Some no_filing"
            and fromstring = sample_fromstring and url = sample_url
            and xml_text = no_filing and e = ValueError]
       no_filing_clean
  have 2: "parse_form4_url whole_ops (\<lambda>url. Some no_filing) sample_fromstring sample_url = []"
    by blast
  from sample_text_clean obtain c where c: "clean_and_extract_xml sample_text = Inr c" ..
  have g: "sample_http_get sample_url = Some sample_text"
    by (simp add: sample_http_get_def)
  from failure_isolation
         [where fo = whole_ops and http_get = sample_http_get
            and fromstring = "\<lambda>s. None" and url = sample_url
            and xml_text = sample_text and c = c]
       g c
  have 3: "parse_form4_url whole_ops sample_http_get (\<lambda>s. None) sample_url = []"
    by blast
  from failure_isolation
         [where fo = whole_ops and http_get = sample_http_get
            and fromstring = "\<lambda>s. Some flag_without_text_root" and url = sample_url
            and xml_text = sample_text and c = c and root = flag_without_text_root
            and e = AttributeError]
       g c flag_without_text_metadata
  have 4: "parse_form4_url whole_ops sample_http_get (\<lambda>s. Some flag_without_text_root)
             sample_url = []"
    by blast
  from c have r: "sample_fromstring c = Some sample_root" by (simp add: sample_fromstring_def)
  from failure_isolation
         [where fo = whole_ops and http_get = sample_http_get
            and fromstring = sample_fromstring and url = sample_url
            and xml_text = sample_text and c = c and root = sample_root
            and m = sample_metadata]
       g c r sample_root_metadata
  have 5: "parse_form4_url_run whole_ops sample_http_get sample_fromstring sample_url
       = process_transactions whole_ops sample_metadata [] (transactions sample_root)"
    by blast
  from failure_isolation
         [where fo = whole_ops and m = sample_metadata and acc = "[]"
            and txs = "transactions sample_root" and ts = "[trade_a, trade_b]"
            and e = TypeError]
       sample_loop
  have 6: "\<exists>before tx rest. transactions sample_root = before @ tx # rest
         \<and> process_transaction whole_ops sample_metadata tx = Raised TypeError
         \<and> process_transactions whole_ops sample_metadata [] before
             = ([trade_a, trade_b], None)"
    by blast
  from n 1 no_filing_clean 2 3 flag_without_text_metadata 4 5 sample_loop 6
  show ?thesis by blast
qed

text \<open>
  The specification promises the empty list whenever a step fails. On the sample filing
  the third transaction fails with a \<^verbatim>\<open>TypeError\<close> and the call returns the two trades
  collected before it.
\<close>

theorem failure_isolation_counterexample:
  "snd (parse_form4_url_run whole_ops sample_http_get sample_fromstring sample_url)
     = Some TypeError
   \<and> parse_form4_url whole_ops sample_http_get sample_fromstring sample_url
     = [trade_a, trade_b]
   \<and> [trade_a, trade_b] \<noteq> []"
  by (simp add: sample_run sample_result)

end
